theory Spec2Isabelle
  imports Main
begin

section \<open>The kfctl client: values, errors and the observable world\<close>

text \<open>
  The file under verification is \<^verbatim>\<open>bootstrap/cmd/bootstrap/app/kfctlClient.go\<close>: the
  constructor \<^verbatim>\<open>NewKfctlClient\<close> and the two methods \<^verbatim>\<open>CreateDeployment\<close> and
  \<^verbatim>\<open>GetLatestKfdef\<close>.

  A Go pointer is an \<open>option\<close>: \<open>None\<close> is the nil pointer. A value of type
  \<^verbatim>\<open>interface{}\<close> is the nil interface or a value with a dynamic type; the two dynamic
  types the client asserts are \<^verbatim>\<open>*kfdefs.KfDef\<close> and \<^verbatim>\<open>*httpError\<close>. The structs
  \<^verbatim>\<open>KfDef\<close> (type variable \<open>'k\<close>) and \<^verbatim>\<open>httpError\<close> (\<open>'h\<close>) are declared outside this
  file and stay opaque, as does every other dynamic type (\<open>'o\<close>).
\<close>

datatype ('k, 'h, 'o) response =
    NilResponse
  | KfDefPtr "'k option"
  | HttpErrorPtr "'h option"
  | OtherValue 'o

text \<open>
  A non-nil value of Go's \<^verbatim>\<open>error\<close> interface. \<open>Opaque\<close> is an error made outside this
  file (by \<^verbatim>\<open>net/url\<close>, by the HTTP transport or by the codecs); \<open>ErrLimited\<close> is
  \<^verbatim>\<open>ratelimit.ErrLimited\<close>; \<open>HttpErr\<close> is a \<^verbatim>\<open>*httpError\<close> stored in the error interface
  (non-nil as an interface even when the pointer is nil); \<open>Errorf\<close> carries the message of
  a \<^verbatim>\<open>fmt.Errorf\<close> value; \<open>PermanentError\<close> is a non-nil \<^verbatim>\<open>*backoff.PermanentError\<close>,
  the struct with the one field \<^verbatim>\<open>Err error\<close>, which may be nil. (On a nil pointer of
  that type the retry loop panics and the call does not return; the model has no such
  value.) A nil \<^verbatim>\<open>error\<close> is \<open>None\<close> of \<open>error option\<close>.
\<close>

datatype ('h, 'e) error =
    Opaque 'e
  | ErrLimited
  | HttpErr "'h option"
  | Errorf string
  | PermanentError "('h, 'e) error option"

text \<open>
  A \<^verbatim>\<open>context.Context\<close> as far as this file can tell contexts apart:
  \<^verbatim>\<open>context.Background()\<close>, which is never done, and a caller's context, which is done
  (cancelled or expired) or not when the call starts.
\<close>

datatype Context = Background | Caller bool

fun Done :: "Context \<Rightarrow> bool" where
  "Done Background = False"
| "Done (Caller d) = d"

text \<open>
  Effects are explicit. The world holds the state of the one \<^verbatim>\<open>rate.Limiter\<close> the
  constructor makes (\<open>'l\<close>: its bucket and whatever clock it reads), the state of the network
  and the remote server (\<open>'n\<close>), and a chronological trace of what the client did: each call
  of the limiter's \<^verbatim>\<open>Allow\<close> with its answer, each HTTP exchange with its method, target
  URL and context, and each wait of the retry loop with its duration in nanoseconds.
\<close>

datatype 'u event =
    Admission bool
  | Sent string 'u Context
  | Slept int

record ('l, 'n, 'u) world =
  limiter_state :: 'l
  network :: 'n
  trace :: "'u event list"

type_synonym ('k, 'h, 'o, 'e, 'w) endpoint =
  "Context \<Rightarrow> 'k \<Rightarrow> 'w \<Rightarrow> (('k, 'h, 'o) response \<times> ('h, 'e) error option) \<times> 'w"

section \<open>The libraries the client is built from\<close>

text \<open>
  \<^verbatim>\<open>strings.HasPrefix(s, prefix)\<close> is
  \<^verbatim>\<open>len(s) >= len(prefix) && s[0:len(prefix)] == prefix\<close>.
\<close>

definition HasPrefix :: "string \<Rightarrow> string \<Rightarrow> bool" where
  "HasPrefix s p = (length p \<le> length s \<and> take (length p) s = p)"

text \<open>
  \<^verbatim>\<open>ratelimit.NewErroringLimiter(limit)\<close> is a middleware: the endpoint it returns asks
  \<^verbatim>\<open>limit.Allow()\<close> first and, when the answer is no, returns \<^verbatim>\<open>(nil, ErrLimited)\<close>
  without calling the endpoint it wraps. \<open>Allow\<close> is the limiter's method, a parameter here:
  the token bucket of \<^verbatim>\<open>golang.org/x/time/rate\<close> reads the wall clock and counts tokens in
  floating point.
\<close>

definition NewErroringLimiter ::
  "('l \<Rightarrow> bool \<times> 'l) \<Rightarrow> ('k, 'h, 'o, 'e, ('l, 'n, 'u) world) endpoint
     \<Rightarrow> ('k, 'h, 'o, 'e, ('l, 'n, 'u) world) endpoint" where
  "NewErroringLimiter Allow next = (\<lambda>ctx request w.
     case Allow (limiter_state w) of (ok, l') \<Rightarrow>
       (let w1 = w\<lparr>limiter_state := l', trace := trace w @ [Admission ok]\<rparr>
        in if \<not> ok then ((NilResponse, Some ErrLimited), w1) else next ctx request w1))"

text \<open>
  \<^verbatim>\<open>httptransport.NewClient(method, tgt, enc, dec).Endpoint()\<close>: one HTTP exchange with the
  target URL under the caller's context. go-kit's client returns \<^verbatim>\<open>(nil, err)\<close> when
  encoding, the exchange or decoding fails and \<^verbatim>\<open>(response, nil)\<close> otherwise, so the
  exchange with both codecs is one parameter \<open>exchange\<close> returning a sum. The error is
  handed on as it is, whatever error the transport or a codec made.
\<close>

definition ClientEndpoint ::
  "(string \<Rightarrow> 'u \<Rightarrow> Context \<Rightarrow> 'k \<Rightarrow> 'n \<Rightarrow> (('h, 'e) error + ('k, 'h, 'o) response) \<times> 'n)
     \<Rightarrow> string \<Rightarrow> 'u \<Rightarrow> ('k, 'h, 'o, 'e, ('l, 'n, 'u) world) endpoint" where
  "ClientEndpoint exchange method tgt = (\<lambda>ctx request w.
     case exchange method tgt ctx request (network w) of (r, n') \<Rightarrow>
       (let w1 = w\<lparr>network := n', trace := trace w @ [Sent method tgt ctx]\<rparr>
       in (case r of
             Inl err \<Rightarrow> ((NilResponse, Some err), w1)
           | Inr resp \<Rightarrow> ((resp, None), w1))))"

subsection \<open>The retry loop of the backoff library\<close>

text \<open>
  \<^verbatim>\<open>time.Duration\<close> counts nanoseconds; \<^verbatim>\<open>backoff.Stop\<close> is the duration \<open>-1\<close>.
\<close>

definition Second :: int where
  "Second = 1000000000"

definition Stop :: int where
  "Stop = - 1"

text \<open>
  \<^verbatim>\<open>backoff.NewConstantBackOff(d)\<close> answers \<open>d\<close> to every \<^verbatim>\<open>NextBackOff\<close>.
  \<^verbatim>\<open>backoff.WithMaxRetries(b, max)\<close> wraps it in a counter: \<^verbatim>\<open>NextBackOff\<close> answers
  \<^verbatim>\<open>Stop\<close> once it has been asked \<open>max\<close> times since the last \<^verbatim>\<open>Reset\<close>, and the
  delegate's answer before that, counting the call. This is the library's counter for a
  positive \<open>max\<close>; the client passes 30.
\<close>

record backOffTries =
  delegate :: int
  maxTries :: nat
  numTries :: nat

definition NewConstantBackOff :: "int \<Rightarrow> int" where
  "NewConstantBackOff d = d"

definition WithMaxRetries :: "int \<Rightarrow> nat \<Rightarrow> backOffTries" where
  "WithMaxRetries b n = \<lparr>delegate = b, maxTries = n, numTries = 0\<rparr>"

definition Reset :: "backOffTries \<Rightarrow> backOffTries" where
  "Reset b = b\<lparr>numTries := 0\<rparr>"

definition NextBackOff :: "backOffTries \<Rightarrow> int \<times> backOffTries" where
  "NextBackOff b =
     (if maxTries b \<le> numTries b then (Stop, b)
      else (delegate b, b\<lparr>numTries := numTries b + 1\<rparr>))"

text \<open>
  \<^verbatim>\<open>backoff.Retry\<close> takes its context from the policy. A policy that was not wrapped by
  \<^verbatim>\<open>backoff.WithContext\<close>, as \<open>backOffTries\<close> is not, gets \<^verbatim>\<open>context.Background()\<close>.
\<close>

definition ensureContext :: "backOffTries \<Rightarrow> Context" where
  "ensureContext b = Background"

text \<open>
  The type assertion of the loop, \<^verbatim>\<open>permanent, ok := err.(*PermanentError)\<close>, read together
  with the field the loop takes from it: \<open>ok\<close>, and \<^verbatim>\<open>permanent.Err\<close> when \<open>ok\<close> holds.
\<close>

fun assertPermanentError :: "('h, 'e) error \<Rightarrow> ('h, 'e) error option \<times> bool" where
  "assertPermanentError (PermanentError inner) = (inner, True)"
| "assertPermanentError _ = (None, False)"

text \<open>
  \<^verbatim>\<open>backoff.Retry(operation, b)\<close>: reset the policy, then run the operation until it
  returns nil, or returns a \<^verbatim>\<open>*PermanentError\<close>, or the policy answers \<^verbatim>\<open>Stop\<close>. A
  permanent error ends the loop at once and the loop returns the error it wraps. After any
  other failed run that is not the last, the loop waits for the policy's duration, giving
  up early only when the policy's own context is done. \<open>wait\<close> is the timer. The
  operation works on a state \<open>'s\<close> (the variables its closure captures, and the world).
\<close>

function RetryLoop ::
  "('s \<Rightarrow> ('h, 'e) error option \<times> 's) \<Rightarrow> (int \<Rightarrow> 's \<Rightarrow> 's) \<Rightarrow> backOffTries \<Rightarrow> 's
     \<Rightarrow> ('h, 'e) error option \<times> 's" where
  "RetryLoop operation wait b s =
     (case operation s of
        (None, s1) \<Rightarrow> (None, s1)
      | (Some err, s1) \<Rightarrow>
          (case assertPermanentError err of (permanent_Err, ok) \<Rightarrow>
             if ok then (permanent_Err, s1)
             else (case NextBackOff b of (next, b1) \<Rightarrow>
               if next = Stop then (Some err, s1)
               else if Done (ensureContext b) then (Some err, s1)
               else RetryLoop operation wait b1 (wait next s1))))"
  by pat_completeness auto
termination
  by (relation "measure (\<lambda>(operation, wait, b, s). maxTries b - numTries b)")
     (auto simp: NextBackOff_def split: if_splits)

definition Retry ::
  "('s \<Rightarrow> ('h, 'e) error option \<times> 's) \<Rightarrow> (int \<Rightarrow> 's \<Rightarrow> 's) \<Rightarrow> backOffTries \<Rightarrow> 's
     \<Rightarrow> ('h, 'e) error option \<times> 's" where
  "Retry operation wait b s = RetryLoop operation wait (Reset b) s"

section \<open>The client\<close>

text \<open>
  \<^verbatim>\<open>type KfctlClient struct { createEndpoint, getEndpoint endpoint.Endpoint }\<close>
\<close>

record 'a KfctlClient =
  createEndpoint :: 'a
  getEndpoint :: 'a

text \<open>
  \<^verbatim>\<open>NewKfctlClient(instance)\<close>. Three things it uses are declared outside the file and
  are parameters: \<open>Parse\<close> is \<^verbatim>\<open>net/url.Parse\<close>, and \<open>copyURL\<close> and \<open>KfctlCreatePath\<close>
  are the helper and the constant of those names. \<open>Allow\<close> is the method of the limiter made
  by \<^verbatim>\<open>rate.NewLimiter(rate.Every(time.Second), 100)\<close>, whose state is \<open>limiter_state\<close>
  of the world. The codecs \<^verbatim>\<open>encodeHTTPGenericRequest\<close> and \<^verbatim>\<open>decodeHTTPKfdefResponse\<close> are
  part of \<open>exchange\<close>. On a parse error the constructor returns \<^verbatim>\<open>(nil, err)\<close>, here
  \<open>Inl\<close>; otherwise the client with a nil error, here \<open>Inr\<close>.
\<close>

definition NewKfctlClient ::
  "(string \<Rightarrow> 'e + 'u) \<Rightarrow> ('u \<Rightarrow> string \<Rightarrow> 'u) \<Rightarrow> string \<Rightarrow> ('l \<Rightarrow> bool \<times> 'l)
     \<Rightarrow> (string \<Rightarrow> 'u \<Rightarrow> Context \<Rightarrow> 'k \<Rightarrow> 'n \<Rightarrow> (('h, 'e) error + ('k, 'h, 'o) response) \<times> 'n)
     \<Rightarrow> string
     \<Rightarrow> ('h, 'e) error + ('k, 'h, 'o, 'e, ('l, 'n, 'u) world) endpoint KfctlClient" where
  "NewKfctlClient Parse copyURL KfctlCreatePath Allow exchange instance =
     (let instance = (if \<not> HasPrefix instance ''http'' then ''http://'' @ instance else instance)
      in case Parse instance of
           Inl err \<Rightarrow> Inl (Opaque err)
         | Inr u \<Rightarrow>
             (let limiter = NewErroringLimiter Allow;
                  createEndpoint' =
                    limiter (ClientEndpoint exchange ''POST'' (copyURL u KfctlCreatePath));
                  getEndpoint' =
                    limiter (ClientEndpoint exchange ''POST'' (copyURL u KfctlCreatePath))
              in Inr \<lparr>createEndpoint = createEndpoint', getEndpoint = getEndpoint'\<rparr>))"

text \<open>
  The two type assertions with the comma-ok form, \<^verbatim>\<open>v, ok := resp.(*kfdefs.KfDef)\<close> and
  \<^verbatim>\<open>v, ok := resp.(*httpError)\<close>: \<open>ok\<close> says whether the dynamic type is the asserted
  one (a nil pointer of that type included), and \<open>v\<close> is the pointer, nil when \<open>ok\<close> is
  false.
\<close>

fun assertKfDef :: "('k, 'h, 'o) response \<Rightarrow> 'k option \<times> bool" where
  "assertKfDef (KfDefPtr p) = (p, True)"
| "assertKfDef _ = (None, False)"

fun assertHttpError :: "('k, 'h, 'o) response \<Rightarrow> 'h option \<times> bool" where
  "assertHttpError (HttpErrorPtr p) = (p, True)"
| "assertHttpError _ = (None, False)"

text \<open>
  The timer of the retry loop, as the world sees it: a wait of \<open>d\<close> nanoseconds.
\<close>

definition wait :: "int \<Rightarrow> ('l, 'n, 'u) world \<Rightarrow> ('l, 'n, 'u) world" where
  "wait d w = w\<lparr>trace := trace w @ [Slept d]\<rparr>"

text \<open>
  \<^verbatim>\<open>CreateDeployment(ctx, req)\<close>. The closure given to \<^verbatim>\<open>backoff.Retry\<close> assigns the
  variables \<^verbatim>\<open>resp\<close> and \<^verbatim>\<open>err\<close> of the method, so the state of the loop is those two
  variables and the world: \<open>operation\<close> is the closure and \<open>timer\<close> the wait of the loop on
  that state.
\<close>

definition operation ::
  "('k, 'h, 'o, 'e, 'w) endpoint KfctlClient \<Rightarrow> Context \<Rightarrow> 'k
     \<Rightarrow> (('k, 'h, 'o) response \<times> ('h, 'e) error option) \<times> 'w
     \<Rightarrow> ('h, 'e) error option \<times> ((('k, 'h, 'o) response \<times> ('h, 'e) error option) \<times> 'w)" where
  "operation c ctx req = (\<lambda>((resp, err), w).
     case createEndpoint c ctx req w of ((resp, err), w') \<Rightarrow>
       (if err \<noteq> None then (err, ((resp, err), w'))
        else (None, ((resp, err), w'))))"

definition timer :: "int \<Rightarrow> 'v \<times> ('l, 'n, 'u) world \<Rightarrow> 'v \<times> ('l, 'n, 'u) world" where
  "timer d = (\<lambda>(vars, w). (vars, wait d w))"

text \<open>
  \<open>Pformat\<close> is the helper of that name, declared outside the file; its second result is
  dropped by the method. The method returns the pair \<^verbatim>\<open>(*kfdefs.KfDef, error)\<close>. Calls of
  the logger are left out: they return nothing.
\<close>

definition CreateDeployment ::
  "(('k, 'h, 'o) response \<Rightarrow> string)
     \<Rightarrow> ('k, 'h, 'o, 'e, ('l, 'n, 'u) world) endpoint KfctlClient
     \<Rightarrow> Context \<Rightarrow> 'k \<Rightarrow> ('l, 'n, 'u) world
     \<Rightarrow> ('k option \<times> ('h, 'e) error option) \<times> ('l, 'n, 'u) world" where
  "CreateDeployment Pformat c ctx req w =
     (let bo = WithMaxRetries (NewConstantBackOff (2 * Second)) 30
      in case Retry (operation c ctx req) timer bo ((NilResponse, None), w) of
           (permErr, ((resp, err), w1)) \<Rightarrow>
             if permErr \<noteq> None then ((None, permErr), w1)
             else (case assertKfDef resp of (response, ok) \<Rightarrow>
               if ok then ((response, None), w1)
               else (case assertHttpError resp of (resErr, ok) \<Rightarrow>
                 if ok then ((None, Some (HttpErr resErr)), w1)
                 else (let pRes = Pformat resp
                       in ((None, Some (Errorf (''Recieved unexpected response; '' @ pRes))),
                           w1)))))"

text \<open>
  \<^verbatim>\<open>GetLatestKfdef(req)\<close>: one call of the get endpoint under
  \<^verbatim>\<open>context.Background()\<close>, then the same statements as above, written out again as
  they are in the source.
\<close>

definition GetLatestKfdef ::
  "(('k, 'h, 'o) response \<Rightarrow> string)
     \<Rightarrow> ('k, 'h, 'o, 'e, ('l, 'n, 'u) world) endpoint KfctlClient
     \<Rightarrow> 'k \<Rightarrow> ('l, 'n, 'u) world
     \<Rightarrow> ('k option \<times> ('h, 'e) error option) \<times> ('l, 'n, 'u) world" where
  "GetLatestKfdef Pformat c req w =
     (case getEndpoint c Background req w of ((resp, err), w1) \<Rightarrow>
        if err \<noteq> None then ((None, err), w1)
        else (case assertKfDef resp of (response, ok) \<Rightarrow>
          if ok then ((response, None), w1)
          else (case assertHttpError resp of (resErr, ok) \<Rightarrow>
            if ok then ((None, Some (HttpErr resErr)), w1)
            else (let pRes = Pformat resp
                  in ((None, Some (Errorf (''Recieved unexpected response; '' @ pRes))),
                      w1)))))"

section \<open>Observing a run\<close>

text \<open>
  The state in which run number \<open>k\<close> (counted from 0) of a retried step starts, when every
  earlier run was followed by the pause: run the step, pause, and go on from there.
\<close>

fun attempt_start :: "('s \<Rightarrow> 'a \<times> 's) \<Rightarrow> ('s \<Rightarrow> 's) \<Rightarrow> nat \<Rightarrow> 's \<Rightarrow> 's" where
  "attempt_start step pause 0 s = s"
| "attempt_start step pause (Suc k) s = attempt_start step pause k (pause (snd (step s)))"

text \<open>
  An outcome of a run that the loop answers with another run while the policy allows one:
  a non-nil error that is not a \<^verbatim>\<open>*PermanentError\<close>. And the error the loop returns when
  it ends with a run: the error of the run, or what a permanent error wraps.
\<close>

fun retryable :: "('h, 'e) error option \<Rightarrow> bool" where
  "retryable None = False"
| "retryable (Some (PermanentError inner)) = False"
| "retryable (Some err) = True"

fun returned_error :: "('h, 'e) error option \<Rightarrow> ('h, 'e) error option" where
  "returned_error None = None"
| "returned_error (Some (PermanentError inner)) = inner"
| "returned_error (Some err) = Some err"

definition after_retry ::
  "(('k, 'h, 'o) response \<times> ('h, 'e) error option) \<times> 'w
     \<Rightarrow> (('k, 'h, 'o) response \<times> ('h, 'e) error option) \<times> 'w" where
  "after_retry out = ((fst (fst out), returned_error (snd (fst out))), snd out)"

text \<open>
  The state of a limiter after \<open>k\<close> calls of its \<^verbatim>\<open>Allow\<close>.
\<close>

fun limiter_after :: "('l \<Rightarrow> bool \<times> 'l) \<Rightarrow> nat \<Rightarrow> 'l \<Rightarrow> 'l" where
  "limiter_after Allow 0 l = l"
| "limiter_after Allow (Suc k) l = limiter_after Allow k (snd (Allow l))"

text \<open>
  Counting on a trace: the invocations of a rate-limited endpoint (each asks the limiter
  once), the HTTP exchanges, the durations of the waits, and the contexts of the exchanges.
\<close>

fun is_admission :: "'u event \<Rightarrow> bool" where
  "is_admission (Admission ok) = True"
| "is_admission _ = False"

fun is_exchange :: "'u event \<Rightarrow> bool" where
  "is_exchange (Sent m u c) = True"
| "is_exchange _ = False"

definition attempts_in :: "'u event list \<Rightarrow> nat" where
  "attempts_in es = length (filter is_admission es)"

definition exchanges_in :: "'u event list \<Rightarrow> nat" where
  "exchanges_in es = length (filter is_exchange es)"

fun pauses_in :: "'u event list \<Rightarrow> int list" where
  "pauses_in [] = []"
| "pauses_in (Slept t # es) = t # pauses_in es"
| "pauses_in (e # es) = pauses_in es"

fun contexts_in :: "'u event list \<Rightarrow> Context list" where
  "contexts_in [] = []"
| "contexts_in (Sent m u c # es) = c # contexts_in es"
| "contexts_in (e # es) = contexts_in es"

text \<open>
  \<open>waits_between d pending es\<close>: in the trace \<open>es\<close> no endpoint invocation follows another
  without a wait of at least \<open>d\<close> in between; \<open>pending\<close> says that an invocation has
  already been seen and no such wait since.
\<close>

fun waits_between :: "int \<Rightarrow> bool \<Rightarrow> 'u event list \<Rightarrow> bool" where
  "waits_between d pending [] = True"
| "waits_between d pending (Admission ok # es) = (\<not> pending \<and> waits_between d True es)"
| "waits_between d pending (Slept t # es) =
     (if d \<le> t then waits_between d False es else waits_between d pending es)"
| "waits_between d pending (Sent m u c # es) = waits_between d pending es"

section \<open>The classifier of the specification\<close>

text \<open>
  The specification's \<open>RemoteOutcome\<close> and its \<open>Classify\<close>: a raw value of the success
  shape is a \<open>DomainResult\<close>, otherwise one of the structured error shape is a
  \<open>RemoteError\<close>, otherwise the value is an \<open>UnclassifiedResponse\<close> with a rendering of
  it. \<open>outcome_result\<close> is the result mapping of the specification's Create and Get: the
  definition, the propagated structured error, or the generic error carrying the rendering.
\<close>

datatype ('k, 'h) RemoteOutcome =
    DomainResult "'k option"
  | RemoteError "'h option"
  | UnclassifiedResponse string

fun Classify ::
  "(('k, 'h, 'o) response \<Rightarrow> string) \<Rightarrow> ('k, 'h, 'o) response \<Rightarrow> ('k, 'h) RemoteOutcome" where
  "Classify render (KfDefPtr d) = DomainResult d"
| "Classify render (HttpErrorPtr e) = RemoteError e"
| "Classify render raw = UnclassifiedResponse (render raw)"

fun outcome_result :: "('k, 'h) RemoteOutcome \<Rightarrow> 'k option \<times> ('h, 'e) error option" where
  "outcome_result (DomainResult d) = (d, None)"
| "outcome_result (RemoteError e) = (None, Some (HttpErr e))"
| "outcome_result (UnclassifiedResponse diag) =
     (None, Some (Errorf (''Recieved unexpected response; '' @ diag)))"

text \<open>
  What a call makes of the outcome of the endpoint invocation it ends with: the error of
  the invocation, or the result for the classified response.
\<close>

definition settle ::
  "(('k, 'h, 'o) response \<Rightarrow> string) \<Rightarrow> (('k, 'h, 'o) response \<times> ('h, 'e) error option) \<times> 'w
     \<Rightarrow> ('k option \<times> ('h, 'e) error option) \<times> 'w" where
  "settle Pformat out =
     (if snd (fst out) \<noteq> None then (None, snd (fst out))
      else outcome_result (Classify Pformat (fst (fst out))), snd out)"

text \<open>
  Whether a string marks a scheme, that is, contains \<open>://\<close>.
\<close>

fun marks_scheme :: "string \<Rightarrow> bool" where
  "marks_scheme [] = False"
| "marks_scheme (c # cs) = (HasPrefix (c # cs) ''://'' \<or> marks_scheme cs)"

section \<open>Sample collaborators\<close>

text \<open>
  Concrete collaborators to run the client on. URLs are strings: \<open>parse_any\<close> accepts every
  address, \<open>parse_none\<close> rejects every address and reports the string it was given, and
  \<open>parse_no_space\<close> rejects an address with a blank in it; \<open>join_path\<close> stands for
  \<^verbatim>\<open>copyURL\<close> and \<open>create_path\<close> for \<^verbatim>\<open>KfctlCreatePath\<close>. A definition, a structured error
  and an error of a library are strings, any other value is a number.
\<close>

definition parse_any :: "string \<Rightarrow> string + string" where
  "parse_any s = Inr s"

definition parse_none :: "string \<Rightarrow> string + string" where
  "parse_none s = Inl s"

definition parse_no_space :: "string \<Rightarrow> string + string" where
  "parse_no_space s = (if CHR '' '' \<in> set s then Inl ''invalid character in host name'' else Inr s)"

definition join_path :: "string \<Rightarrow> string \<Rightarrow> string" where
  "join_path u p = u @ p"

definition create_path :: string where
  "create_path = ''/kfctl/create''"

definition render :: "(string, string, nat) response \<Rightarrow> string" where
  "render r = (case r of NilResponse \<Rightarrow> ''nil'' | KfDefPtr p \<Rightarrow> ''kfdef''
                | HttpErrorPtr p \<Rightarrow> ''httpError'' | OtherValue n \<Rightarrow> ''value'')"

text \<open>
  Limiters: one that admits every call, and a bucket of tokens that is never refilled.
\<close>

definition admit_all :: "unit \<Rightarrow> bool \<times> unit" where
  "admit_all l = (True, l)"

definition bucket :: "nat \<Rightarrow> bool \<times> nat" where
  "bucket n = (0 < n, n - 1)"

text \<open>
  Remote sides, with the number of exchanges so far as the state of the network: one that
  refuses every connection; one that answers with the request as the definition; one that
  fails twice and answers from then on; one that answers with a structured error; one that
  answers with a number; one that answers with a nil pointer to a definition; one that
  answers unless the context of the exchange is done; one that fails every exchange with
  an error that tells the number of the exchange, in strokes; and one that fails with a
  permanent error of the backoff library.
\<close>

definition refusing ::
  "string \<Rightarrow> string \<Rightarrow> Context \<Rightarrow> string \<Rightarrow> nat \<Rightarrow> ((string, string) error + (string, string, nat) response) \<times> nat" where
  "refusing m u ctx req n = (Inl (Opaque ''connection refused''), Suc n)"

definition echoing ::
  "string \<Rightarrow> string \<Rightarrow> Context \<Rightarrow> string \<Rightarrow> nat \<Rightarrow> ((string, string) error + (string, string, nat) response) \<times> nat" where
  "echoing m u ctx req n = (Inr (KfDefPtr (Some req)), Suc n)"

definition flaky ::
  "string \<Rightarrow> string \<Rightarrow> Context \<Rightarrow> string \<Rightarrow> nat \<Rightarrow> ((string, string) error + (string, string, nat) response) \<times> nat" where
  "flaky m u ctx req n =
     (if n < 2 then Inl (Opaque ''connection reset'') else Inr (KfDefPtr (Some req)), Suc n)"

definition failing ::
  "string \<Rightarrow> string \<Rightarrow> Context \<Rightarrow> string \<Rightarrow> nat \<Rightarrow> ((string, string) error + (string, string, nat) response) \<times> nat" where
  "failing m u ctx req n = (Inr (HttpErrorPtr (Some ''quota exceeded'')), Suc n)"

definition unrelated ::
  "string \<Rightarrow> string \<Rightarrow> Context \<Rightarrow> string \<Rightarrow> nat \<Rightarrow> ((string, string) error + (string, string, nat) response) \<times> nat" where
  "unrelated m u ctx req n = (Inr (OtherValue 7), Suc n)"

definition nil_definition ::
  "string \<Rightarrow> string \<Rightarrow> Context \<Rightarrow> string \<Rightarrow> nat \<Rightarrow> ((string, string) error + (string, string, nat) response) \<times> nat" where
  "nil_definition m u ctx req n = (Inr (KfDefPtr None), Suc n)"

definition cancellable ::
  "string \<Rightarrow> string \<Rightarrow> Context \<Rightarrow> string \<Rightarrow> nat \<Rightarrow> ((string, string) error + (string, string, nat) response) \<times> nat" where
  "cancellable m u ctx req n =
     (if Done ctx then Inl (Opaque ''context canceled'') else Inr (KfDefPtr (Some req)), Suc n)"

definition numbered ::
  "string \<Rightarrow> string \<Rightarrow> Context \<Rightarrow> string \<Rightarrow> nat \<Rightarrow> ((string, string) error + (string, string, nat) response) \<times> nat" where
  "numbered m u ctx req n = (Inl (Opaque (replicate n CHR ''I'')), Suc n)"

definition giving_up ::
  "string \<Rightarrow> string \<Rightarrow> Context \<Rightarrow> string \<Rightarrow> nat \<Rightarrow> ((string, string) error + (string, string, nat) response) \<times> nat" where
  "giving_up m u ctx req n = (Inl (PermanentError (Some (Opaque ''bad request''))), Suc n)"

text \<open>
  The client for the address \<open>localhost:8080\<close> over a limiter and a remote side, and a
  world with nothing done yet.
\<close>

definition sample_client ::
  "('l \<Rightarrow> bool \<times> 'l)
     \<Rightarrow> (string \<Rightarrow> string \<Rightarrow> Context \<Rightarrow> string \<Rightarrow> nat \<Rightarrow> ((string, string) error + (string, string, nat) response) \<times> nat)
     \<Rightarrow> (string, string, nat, string, ('l, nat, string) world) endpoint KfctlClient" where
  "sample_client Allow exchange =
     projr (NewKfctlClient parse_any join_path create_path Allow exchange ''localhost:8080'')"

definition fresh :: "'l \<Rightarrow> ('l, nat, string) world" where
  "fresh l = \<lparr>limiter_state = l, network = 0, trace = []\<rparr>"

text \<open>
  A client put together by hand, as a test in the package can: both endpoints return the
  given response and error and do nothing else.
\<close>

definition stub_client ::
  "(string, string, nat) response \<times> (string, string) error option
     \<Rightarrow> (string, string, nat, string, (unit, nat, string) world) endpoint KfctlClient" where
  "stub_client out =
     \<lparr>createEndpoint = (\<lambda>ctx req w. (out, w)), getEndpoint = (\<lambda>ctx req w. (out, w))\<rparr>"

section \<open>The retry loop\<close>

declare RetryLoop.simps [simp del]

lemma ensureContext_not_done [simp]: "\<not> Done (ensureContext b)"
  by (simp add: ensureContext_def)

lemma retryable_returned [simp]: "retryable e \<Longrightarrow> returned_error e = e"
  by (induction e rule: retryable.induct) simp_all

lemma retryable_not_None [simp]: "retryable e \<Longrightarrow> e \<noteq> None"
  by (cases e) simp_all

lemma retryable_assert:
  "retryable (Some err) = (\<not> snd (assertPermanentError err))"
  by (cases err) simp_all

lemma returned_assert:
  "snd (assertPermanentError err) \<Longrightarrow> returned_error (Some err) = fst (assertPermanentError err)"
  by (cases err) simp_all

lemma RetryLoop_end:
  "\<not> retryable (fst (run s)) \<Longrightarrow>
     RetryLoop run wt b s = (returned_error (fst (run s)), snd (run s))"
proof (cases "run s")
  case (Pair e s1)
  assume "\<not> retryable (fst (run s))"
  with Pair show ?thesis
    by (cases e)
       (auto simp: RetryLoop.simps [of run wt b s] retryable_assert returned_assert
          split: prod.splits)
qed

lemma RetryLoop_stop:
  "retryable (fst (run s)) \<Longrightarrow> maxTries b \<le> numTries b \<Longrightarrow>
     RetryLoop run wt b s = (returned_error (fst (run s)), snd (run s))"
proof (cases "run s")
  case (Pair e s1)
  assume "retryable (fst (run s))" "maxTries b \<le> numTries b"
  with Pair show ?thesis
    by (cases e)
       (auto simp: RetryLoop.simps [of run wt b s] retryable_assert NextBackOff_def
          split: prod.splits)
qed

lemma RetryLoop_again:
  "retryable (fst (run s)) \<Longrightarrow> numTries b < maxTries b \<Longrightarrow> delegate b \<noteq> Stop \<Longrightarrow>
     RetryLoop run wt b s =
       RetryLoop run wt (b\<lparr>numTries := numTries b + 1\<rparr>) (wt (delegate b) (snd (run s)))"
proof (cases "run s")
  case (Pair e s1)
  assume "retryable (fst (run s))" "numTries b < maxTries b" "delegate b \<noteq> Stop"
  with Pair show ?thesis
    by (cases e)
       (auto simp: RetryLoop.simps [of run wt b s] retryable_assert NextBackOff_def
          split: prod.splits)
qed

text \<open>
  The loop ends with one of its runs, run number \<open>k\<close>: every earlier run failed with an
  error that is not permanent, and run \<open>k\<close> returned nil or a permanent error, or was the
  last the policy allows.
\<close>

lemma RetryLoop_run:
  "delegate b \<noteq> Stop \<Longrightarrow>
   \<exists>k\<le>maxTries b - numTries b.
      RetryLoop run wt b s =
        (returned_error (fst (run (attempt_start run (wt (delegate b)) k s))),
         snd (run (attempt_start run (wt (delegate b)) k s))) \<and>
      (\<forall>i<k. retryable (fst (run (attempt_start run (wt (delegate b)) i s)))) \<and>
      (\<not> retryable (fst (run (attempt_start run (wt (delegate b)) k s)))
         \<or> k = maxTries b - numTries b)"
proof (induction "maxTries b - numTries b" arbitrary: b s)
  case 0
  then have "RetryLoop run wt b s = (returned_error (fst (run s)), snd (run s))"
    by (cases "retryable (fst (run s))") (simp_all add: RetryLoop_end RetryLoop_stop)
  with 0 show ?case by (intro exI [of _ 0]) simp
next
  case (Suc n)
  let ?b = "b\<lparr>numTries := numTries b + 1\<rparr>"
  let ?s = "wt (delegate b) (snd (run s))"
  show ?case
  proof (cases "retryable (fst (run s))")
    case False
    then show ?thesis by (intro exI [of _ 0]) (simp add: RetryLoop_end)
  next
    case True
    have n: "n = maxTries ?b - numTries ?b" using Suc.hyps(2) by simp
    have "delegate ?b \<noteq> Stop" using Suc.prems by simp
    from Suc.hyps(1) [OF n this, of ?s] obtain k where k: "k \<le> n"
      "RetryLoop run wt ?b ?s =
         (returned_error (fst (run (attempt_start run (wt (delegate b)) k ?s))),
          snd (run (attempt_start run (wt (delegate b)) k ?s)))"
      "\<forall>i<k. retryable (fst (run (attempt_start run (wt (delegate b)) i ?s)))"
      "\<not> retryable (fst (run (attempt_start run (wt (delegate b)) k ?s))) \<or> k = n"
      using n by auto
    have again: "RetryLoop run wt b s = RetryLoop run wt ?b ?s"
      using True Suc.hyps(2) Suc.prems by (simp add: RetryLoop_again)
    have earlier: "\<forall>i<Suc k. retryable (fst (run (attempt_start run (wt (delegate b)) i s)))"
    proof (intro allI impI)
      fix i assume "i < Suc k"
      then show "retryable (fst (run (attempt_start run (wt (delegate b)) i s)))"
        using True k(3) by (cases i) simp_all
    qed
    show ?thesis
    proof (intro exI [of _ "Suc k"] conjI)
      show "Suc k \<le> maxTries b - numTries b" using k(1) Suc.hyps(2) by simp
      show "RetryLoop run wt b s =
              (returned_error (fst (run (attempt_start run (wt (delegate b)) (Suc k) s))),
               snd (run (attempt_start run (wt (delegate b)) (Suc k) s)))"
        using again k(2) by simp
      show "\<forall>i<Suc k. retryable (fst (run (attempt_start run (wt (delegate b)) i s)))"
        by (rule earlier)
      show "\<not> retryable (fst (run (attempt_start run (wt (delegate b)) (Suc k) s)))
              \<or> Suc k = maxTries b - numTries b"
        using k(4) Suc.hyps(2) by auto
    qed
  qed
qed

text \<open>
  The run the loop ends with is determined: the first that returns nil or a permanent
  error, or the last allowed.
\<close>

lemma RetryLoop_first_end:
  assumes "delegate b \<noteq> Stop" and "k \<le> maxTries b - numTries b"
    and "\<forall>i<k. retryable (fst (run (attempt_start run (wt (delegate b)) i s)))"
    and "\<not> retryable (fst (run (attempt_start run (wt (delegate b)) k s)))"
  shows "RetryLoop run wt b s =
           (returned_error (fst (run (attempt_start run (wt (delegate b)) k s))),
            snd (run (attempt_start run (wt (delegate b)) k s)))"
proof -
  from RetryLoop_run [OF assms(1), of run wt s] obtain j where j:
    "j \<le> maxTries b - numTries b"
    "RetryLoop run wt b s =
       (returned_error (fst (run (attempt_start run (wt (delegate b)) j s))),
        snd (run (attempt_start run (wt (delegate b)) j s)))"
    "\<forall>i<j. retryable (fst (run (attempt_start run (wt (delegate b)) i s)))"
    "\<not> retryable (fst (run (attempt_start run (wt (delegate b)) j s)))
       \<or> j = maxTries b - numTries b"
    by blast
  have "\<not> k < j" using j(3) assms(4) by blast
  moreover have "\<not> j < k"
  proof
    assume "j < k"
    with assms(3) have "retryable (fst (run (attempt_start run (wt (delegate b)) j s)))" by blast
    with j(4) have "j = maxTries b - numTries b" by blast
    with \<open>j < k\<close> assms(2) show False by simp
  qed
  ultimately have "j = k" by simp
  with j(2) show ?thesis by simp
qed

lemma RetryLoop_exhausted:
  assumes "delegate b \<noteq> Stop"
    and "\<forall>i<Suc (maxTries b - numTries b). retryable (fst (run (attempt_start run (wt (delegate b)) i s)))"
  shows "RetryLoop run wt b s = run (attempt_start run (wt (delegate b)) (maxTries b - numTries b) s)"
proof -
  from RetryLoop_run [OF assms(1), of run wt s] obtain j where j:
    "j \<le> maxTries b - numTries b"
    "RetryLoop run wt b s =
       (returned_error (fst (run (attempt_start run (wt (delegate b)) j s))),
        snd (run (attempt_start run (wt (delegate b)) j s)))"
    "\<not> retryable (fst (run (attempt_start run (wt (delegate b)) j s)))
       \<or> j = maxTries b - numTries b"
    by blast
  from j(1) assms(2) have "retryable (fst (run (attempt_start run (wt (delegate b)) j s)))"
    by (simp add: less_Suc_eq_le)
  with j(2,3) show ?thesis by auto
qed

section \<open>CreateDeployment as a run of its endpoint\<close>

lemma operation_fst [simp]:
  "fst (operation c ctx req (v, w)) = snd (fst (createEndpoint c ctx req w))"
  by (cases "createEndpoint c ctx req w") (auto simp: operation_def)

lemma operation_snd [simp]:
  "snd (operation c ctx req (v, w)) = createEndpoint c ctx req w"
  by (cases "createEndpoint c ctx req w") (auto simp: operation_def)

lemma timer_pair [simp]: "timer d (v, w) = (v, wait d w)"
  by (simp add: timer_def)

lemma operation_state:
  "snd (attempt_start (operation c ctx req) (timer d) k (v, w))
     = attempt_start (createEndpoint c ctx req) (wait d) k w"
proof (induction k arbitrary: v w)
  case 0
  show ?case by simp
next
  case (Suc k)
  obtain r w' where "createEndpoint c ctx req w = (r, w')"
    by (cases "createEndpoint c ctx req w")
  then show ?case using Suc.IH [of r "wait d w'"] by simp
qed

lemma operation_at:
  "operation c ctx req (attempt_start (operation c ctx req) (timer d) k (v, w))
     = (snd (fst (createEndpoint c ctx req (attempt_start (createEndpoint c ctx req) (wait d) k w))),
        createEndpoint c ctx req (attempt_start (createEndpoint c ctx req) (wait d) k w))"
proof -
  obtain v' w' where s: "attempt_start (operation c ctx req) (timer d) k (v, w) = (v', w')"
    by (cases "attempt_start (operation c ctx req) (timer d) k (v, w)")
  with operation_state [of c ctx req d k v w]
  have w': "w' = attempt_start (createEndpoint c ctx req) (wait d) k w" by simp
  have "operation c ctx req (v', w')
          = (snd (fst (createEndpoint c ctx req w')), createEndpoint c ctx req w')"
    by (rule prod_eqI) simp_all
  then show ?thesis
    unfolding s w' .
qed

text \<open>
  What the statements after the loop make of the response the loop ended with.
\<close>

lemma assertions_classify:
  "(case assertKfDef resp of (response, ok) \<Rightarrow>
      if ok then ((response, None), w1)
      else (case assertHttpError resp of (resErr, ok) \<Rightarrow>
        if ok then ((None, Some (HttpErr resErr)), w1)
        else (let pRes = Pformat resp
              in ((None, Some (Errorf (''Recieved unexpected response; '' @ pRes))), w1))))
   = (outcome_result (Classify Pformat resp), w1)"
  by (cases resp) simp_all

lemma after_retry_simps [simp]:
  "snd (after_retry out) = snd out"
  "fst (fst (after_retry out)) = fst (fst out)"
  "snd (fst (after_retry out)) = returned_error (snd (fst out))"
  by (simp_all add: after_retry_def)

lemma after_retry_same:
  "snd (fst out) = None \<or> retryable (snd (fst out)) \<Longrightarrow> after_retry out = out"
  by (auto simp: after_retry_def prod_eq_iff)

lemma CreateDeployment_at:
  "Retry (operation c ctx req) timer (WithMaxRetries (NewConstantBackOff (2 * Second)) 30)
       ((NilResponse, None), w)
     = (returned_error (fst (operation c ctx req
          (attempt_start (operation c ctx req) (timer (2 * Second)) k ((NilResponse, None), w)))),
        snd (operation c ctx req
          (attempt_start (operation c ctx req) (timer (2 * Second)) k ((NilResponse, None), w)))) \<Longrightarrow>
   CreateDeployment Pformat c ctx req w =
     settle Pformat (after_retry
       (createEndpoint c ctx req (attempt_start (createEndpoint c ctx req) (wait (2 * Second)) k w)))"
  by (cases "createEndpoint c ctx req (attempt_start (createEndpoint c ctx req) (wait (2 * Second)) k w)")
     (auto simp: CreateDeployment_def settle_def after_retry_def operation_at assertions_classify
        Let_def)

lemma policy_facts [simp]:
  "delegate (Reset (WithMaxRetries (NewConstantBackOff (2 * Second)) 30)) = 2 * Second"
  "maxTries (Reset (WithMaxRetries (NewConstantBackOff (2 * Second)) 30)) = 30"
  "numTries (Reset (WithMaxRetries (NewConstantBackOff (2 * Second)) 30)) = 0"
  "2 * Second \<noteq> Stop"
  by (simp_all add: Reset_def WithMaxRetries_def NewConstantBackOff_def Second_def Stop_def)

text \<open>
  CreateDeployment settles the outcome of attempt number \<open>k\<close> of its endpoint, for some
  \<open>k\<close> up to 30: every earlier attempt returned an error that is not permanent, and
  attempt \<open>k\<close> returned no error or a permanent one, or is attempt 30.
\<close>

lemma CreateDeployment_run:
  "\<exists>k\<le>30.
     CreateDeployment Pformat c ctx req w =
       settle Pformat (after_retry
         (createEndpoint c ctx req (attempt_start (createEndpoint c ctx req) (wait (2 * Second)) k w))) \<and>
     (\<forall>i<k. retryable (snd (fst (createEndpoint c ctx req
                (attempt_start (createEndpoint c ctx req) (wait (2 * Second)) i w))))) \<and>
     (\<not> retryable (snd (fst (createEndpoint c ctx req
                (attempt_start (createEndpoint c ctx req) (wait (2 * Second)) k w)))) \<or> k = 30)"
proof -
  let ?b = "Reset (WithMaxRetries (NewConstantBackOff (2 * Second)) 30)"
  have "delegate ?b \<noteq> Stop" by simp
  from RetryLoop_run [OF this, of "operation c ctx req" timer "((NilResponse, None), w)"]
  obtain k where k: "k \<le> 30"
    "RetryLoop (operation c ctx req) timer ?b ((NilResponse, None), w)
       = (returned_error (fst (operation c ctx req
            (attempt_start (operation c ctx req) (timer (2 * Second)) k ((NilResponse, None), w)))),
          snd (operation c ctx req
            (attempt_start (operation c ctx req) (timer (2 * Second)) k ((NilResponse, None), w))))"
    "\<forall>i<k. retryable (fst (operation c ctx req (attempt_start (operation c ctx req)
           (timer (2 * Second)) i ((NilResponse, None), w))))"
    "\<not> retryable (fst (operation c ctx req (attempt_start (operation c ctx req)
           (timer (2 * Second)) k ((NilResponse, None), w)))) \<or> k = 30"
    by auto
  show ?thesis
  proof (intro exI [of _ k] conjI)
    show "k \<le> 30" by (rule k(1))
    show "CreateDeployment Pformat c ctx req w =
       settle Pformat (after_retry
         (createEndpoint c ctx req (attempt_start (createEndpoint c ctx req) (wait (2 * Second)) k w)))"
      using k(2) by (intro CreateDeployment_at) (simp add: Retry_def)
    show "\<forall>i<k. retryable (snd (fst (createEndpoint c ctx req
                (attempt_start (createEndpoint c ctx req) (wait (2 * Second)) i w))))"
      using k(3) by (simp add: operation_at)
    show "\<not> retryable (snd (fst (createEndpoint c ctx req
                (attempt_start (createEndpoint c ctx req) (wait (2 * Second)) k w)))) \<or> k = 30"
      using k(4) by (simp add: operation_at)
  qed
qed

lemma CreateDeployment_first_end:
  assumes "k \<le> 30"
    and "\<forall>i<k. retryable (snd (fst (createEndpoint c ctx req
                (attempt_start (createEndpoint c ctx req) (wait (2 * Second)) i w))))"
    and "\<not> retryable (snd (fst (createEndpoint c ctx req
                (attempt_start (createEndpoint c ctx req) (wait (2 * Second)) k w))))"
  shows "CreateDeployment Pformat c ctx req w =
       settle Pformat (after_retry
         (createEndpoint c ctx req (attempt_start (createEndpoint c ctx req) (wait (2 * Second)) k w)))"
proof -
  let ?b = "Reset (WithMaxRetries (NewConstantBackOff (2 * Second)) 30)"
  have "RetryLoop (operation c ctx req) timer ?b ((NilResponse, None), w)
       = (returned_error (fst (operation c ctx req
            (attempt_start (operation c ctx req) (timer (delegate ?b)) k ((NilResponse, None), w)))),
          snd (operation c ctx req
            (attempt_start (operation c ctx req) (timer (delegate ?b)) k ((NilResponse, None), w))))"
    using assms by (intro RetryLoop_first_end) (simp_all add: operation_at)
  then show ?thesis
    by (intro CreateDeployment_at) (simp add: Retry_def)
qed

lemma CreateDeployment_first_ok:
  assumes "k \<le> 30"
    and "\<forall>i<k. retryable (snd (fst (createEndpoint c ctx req
                (attempt_start (createEndpoint c ctx req) (wait (2 * Second)) i w))))"
    and "snd (fst (createEndpoint c ctx req
                (attempt_start (createEndpoint c ctx req) (wait (2 * Second)) k w))) = None"
  shows "CreateDeployment Pformat c ctx req w =
       settle Pformat
         (createEndpoint c ctx req (attempt_start (createEndpoint c ctx req) (wait (2 * Second)) k w))"
  using CreateDeployment_first_end [OF assms(1,2), of Pformat] assms(3)
  by (simp add: after_retry_same)

text \<open>
  A permanent error is not answered with another attempt: the call ends with the error it
  wraps, and when that is nil, with the classification of the response of that attempt.
\<close>

lemma CreateDeployment_permanent:
  assumes "k \<le> 30"
    and "\<forall>i<k. retryable (snd (fst (createEndpoint c ctx req
                (attempt_start (createEndpoint c ctx req) (wait (2 * Second)) i w))))"
    and "createEndpoint c ctx req
                (attempt_start (createEndpoint c ctx req) (wait (2 * Second)) k w)
           = ((r, Some (PermanentError inner)), w')"
  shows "CreateDeployment Pformat c ctx req w = settle Pformat ((r, inner), w')"
  using CreateDeployment_first_end [OF assms(1,2), of Pformat] assms(3)
  by (simp add: after_retry_def)

lemma CreateDeployment_exhausted:
  assumes "\<forall>i<31. retryable (snd (fst (createEndpoint c ctx req
                (attempt_start (createEndpoint c ctx req) (wait (2 * Second)) i w))))"
  shows "CreateDeployment Pformat c ctx req w =
       settle Pformat
         (createEndpoint c ctx req (attempt_start (createEndpoint c ctx req) (wait (2 * Second)) 30 w))"
proof -
  let ?b = "Reset (WithMaxRetries (NewConstantBackOff (2 * Second)) 30)"
  let ?last = "createEndpoint c ctx req (attempt_start (createEndpoint c ctx req) (wait (2 * Second)) 30 w)"
  have last: "retryable (snd (fst ?last))" using assms by simp
  have "RetryLoop (operation c ctx req) timer ?b ((NilResponse, None), w)
       = operation c ctx req (attempt_start (operation c ctx req) (timer (delegate ?b))
           (maxTries ?b - numTries ?b) ((NilResponse, None), w))"
    using assms by (intro RetryLoop_exhausted) (simp_all add: operation_at)
  then have "Retry (operation c ctx req) timer (WithMaxRetries (NewConstantBackOff (2 * Second)) 30)
       ((NilResponse, None), w)
     = (returned_error (fst (operation c ctx req
          (attempt_start (operation c ctx req) (timer (2 * Second)) 30 ((NilResponse, None), w)))),
        snd (operation c ctx req
          (attempt_start (operation c ctx req) (timer (2 * Second)) 30 ((NilResponse, None), w))))"
    using last by (simp add: Retry_def operation_at)
  from CreateDeployment_at [OF this, of Pformat] last show ?thesis
    by (simp add: after_retry_same)
qed

lemma GetLatestKfdef_settle:
  "GetLatestKfdef Pformat c req w = settle Pformat (getEndpoint c Background req w)"
  by (cases "getEndpoint c Background req w")
     (auto simp: GetLatestKfdef_def settle_def assertions_classify)

section \<open>The endpoints the constructor builds\<close>

lemma NewKfctlClient_endpoints:
  assumes "NewKfctlClient Parse copyURL path Allow exchange instance = Inr c"
  shows "\<exists>u. Parse (if HasPrefix instance ''http'' then instance else ''http://'' @ instance) = Inr u \<and>
             createEndpoint c = NewErroringLimiter Allow (ClientEndpoint exchange ''POST'' (copyURL u path)) \<and>
             getEndpoint c = NewErroringLimiter Allow (ClientEndpoint exchange ''POST'' (copyURL u path))"
  using assms by (auto simp: NewKfctlClient_def Let_def split: sum.splits if_splits)

lemma limited_rejected:
  "\<not> fst (Allow (limiter_state w)) \<Longrightarrow>
     NewErroringLimiter Allow next ctx req w =
       ((NilResponse, Some ErrLimited),
        w\<lparr>limiter_state := snd (Allow (limiter_state w)), trace := trace w @ [Admission False]\<rparr>)"
  by (cases "Allow (limiter_state w)") (simp add: NewErroringLimiter_def)

lemma limited_admitted:
  "fst (Allow (limiter_state w)) \<Longrightarrow>
     NewErroringLimiter Allow next ctx req w =
       next ctx req
        (w\<lparr>limiter_state := snd (Allow (limiter_state w)), trace := trace w @ [Admission True]\<rparr>)"
  by (cases "Allow (limiter_state w)") (simp add: NewErroringLimiter_def)

lemma ClientEndpoint_world:
  "snd (ClientEndpoint exchange m t ctx req w) =
     w\<lparr>network := snd (exchange m t ctx req (network w)), trace := trace w @ [Sent m t ctx]\<rparr>"
  by (cases "exchange m t ctx req (network w)")
     (simp add: ClientEndpoint_def Let_def split: sum.splits)

lemma ClientEndpoint_result:
  "fst (ClientEndpoint exchange m t ctx req w) =
     (case fst (exchange m t ctx req (network w)) of
        Inl err \<Rightarrow> (NilResponse, Some err)
      | Inr resp \<Rightarrow> (resp, None))"
  by (cases "exchange m t ctx req (network w)")
     (simp add: ClientEndpoint_def Let_def split: sum.splits)

lemma limited_trace:
  "trace (snd (NewErroringLimiter Allow (ClientEndpoint exchange m t) ctx req w)) =
     trace w @ (if fst (Allow (limiter_state w)) then [Admission True, Sent m t ctx]
                else [Admission False])"
  by (simp add: limited_rejected limited_admitted ClientEndpoint_world)

lemma limited_limiter:
  "limiter_state (snd (NewErroringLimiter Allow (ClientEndpoint exchange m t) ctx req w)) =
     snd (Allow (limiter_state w))"
  by (cases "fst (Allow (limiter_state w))")
     (simp_all add: limited_rejected limited_admitted ClientEndpoint_world)

lemma wait_fields [simp]:
  "trace (wait d w) = trace w @ [Slept d]"
  "limiter_state (wait d w) = limiter_state w"
  "network (wait d w) = network w"
  by (simp_all add: wait_def)

lemma counts_append [simp]:
  "attempts_in (xs @ ys) = attempts_in xs + attempts_in ys"
  "exchanges_in (xs @ ys) = exchanges_in xs + exchanges_in ys"
  by (simp_all add: attempts_in_def exchanges_in_def)

lemma counts_simps [simp]:
  "attempts_in [] = 0" "attempts_in (e # es) = (if is_admission e then 1 else 0) + attempts_in es"
  "exchanges_in [] = 0" "exchanges_in (e # es) = (if is_exchange e then 1 else 0) + exchanges_in es"
  by (simp_all add: attempts_in_def exchanges_in_def)

lemma pauses_in_append [simp]: "pauses_in (xs @ ys) = pauses_in xs @ pauses_in ys"
  by (induction xs rule: pauses_in.induct) simp_all

lemma contexts_in_append [simp]: "contexts_in (xs @ ys) = contexts_in xs @ contexts_in ys"
  by (induction xs rule: contexts_in.induct) simp_all

text \<open>
  The trace of attempts 0 to \<open>k\<close> of a rate-limited endpoint, with a wait of \<open>d\<close> after each
  but the last.
\<close>

lemma limited_attempts_trace:
  fixes Allow exchange m t ctx req d
  defines "ep \<equiv> NewErroringLimiter Allow (ClientEndpoint exchange m t) ctx req"
  shows "\<exists>es. trace (snd (ep (attempt_start ep (wait d) k w))) = trace w @ es \<and>
              attempts_in es = Suc k \<and> exchanges_in es \<le> attempts_in es \<and>
              pauses_in es = replicate k d \<and> waits_between d False es \<and>
              set (contexts_in es) \<subseteq> {ctx}"
proof (induction k arbitrary: w)
  case 0
  show ?case
    by (cases "fst (Allow (limiter_state w))") (simp_all add: ep_def limited_trace)
next
  case (Suc k)
  let ?w = "wait d (snd (ep w))"
  from Suc.IH [of ?w] obtain es where es:
    "trace (snd (ep (attempt_start ep (wait d) k ?w))) = trace ?w @ es"
    "attempts_in es = Suc k" "exchanges_in es \<le> attempts_in es"
    "pauses_in es = replicate k d" "waits_between d False es"
    "set (contexts_in es) \<subseteq> {ctx}"
    by blast
  let ?first = "if fst (Allow (limiter_state w)) then [Admission True, Sent m t ctx]
                else [Admission False]"
  have "trace (snd (ep (attempt_start ep (wait d) (Suc k) w))) = trace w @ (?first @ Slept d # es)"
    using es(1) by (simp add: ep_def limited_trace)
  moreover have "attempts_in (?first @ Slept d # es) = Suc (Suc k)"
    using es(2) by simp
  moreover have "exchanges_in (?first @ Slept d # es) \<le> attempts_in (?first @ Slept d # es)"
    using es(3) by simp
  moreover have "pauses_in (?first @ Slept d # es) = replicate (Suc k) d"
    using es(4) by simp
  moreover have "waits_between d False (?first @ Slept d # es)"
    using es(5) by simp
  moreover have "set (contexts_in (?first @ Slept d # es)) \<subseteq> {ctx}"
    using es(6) by simp
  ultimately show ?case by blast
qed

lemma limited_attempts_limiter:
  fixes Allow exchange m t ctx req d
  defines "ep \<equiv> NewErroringLimiter Allow (ClientEndpoint exchange m t) ctx req"
  shows "limiter_state (attempt_start ep (wait d) k w) = limiter_after Allow k (limiter_state w)"
proof (induction k arbitrary: w)
  case 0
  show ?case by simp
next
  case (Suc k)
  show ?case
    using Suc.IH [of "wait d (snd (ep w))"]
    by (simp add: ep_def limited_limiter)
qed

lemma limited_attempts_network:
  fixes Allow exchange m t ctx req d
  defines "ep \<equiv> NewErroringLimiter Allow (ClientEndpoint exchange m t) ctx req"
  assumes "\<forall>i<k. \<not> fst (Allow (limiter_after Allow i (limiter_state w)))"
  shows "network (attempt_start ep (wait d) k w) = network w"
  using assms(2)
proof (induction k arbitrary: w)
  case 0
  show ?case by simp
next
  case (Suc k)
  have first: "\<not> fst (Allow (limiter_state w))"
    using Suc.prems by force
  have "\<forall>i<k. \<not> fst (Allow (limiter_after Allow i (limiter_state (wait d (snd (ep w))))))"
  proof (intro allI impI)
    fix i assume "i < k"
    then have "\<not> fst (Allow (limiter_after Allow (Suc i) (limiter_state w)))"
      using Suc.prems by (meson Suc_less_eq)
    then show "\<not> fst (Allow (limiter_after Allow i (limiter_state (wait d (snd (ep w))))))"
      by (simp add: ep_def limited_limiter)
  qed
  from Suc.IH [OF this] show ?case
    using first by (simp add: ep_def limited_rejected)
qed

section \<open>The sample client\<close>

lemma sample_client_endpoints:
  "createEndpoint (sample_client Allow exchange) =
     NewErroringLimiter Allow (ClientEndpoint exchange ''POST'' ''http://localhost:8080/kfctl/create'')"
  "getEndpoint (sample_client Allow exchange) =
     NewErroringLimiter Allow (ClientEndpoint exchange ''POST'' ''http://localhost:8080/kfctl/create'')"
  by (simp_all add: sample_client_def NewKfctlClient_def HasPrefix_def parse_any_def
        join_path_def create_path_def Let_def)

lemma sample_client_built:
  "NewKfctlClient parse_any join_path create_path Allow exchange ''localhost:8080''
     = Inr (sample_client Allow exchange)"
  by (simp add: sample_client_def NewKfctlClient_def HasPrefix_def parse_any_def Let_def)

lemma admitted_exchange:
  "NewErroringLimiter admit_all (ClientEndpoint exchange m t) ctx req w =
     (case exchange m t ctx req (network w) of (r, n') \<Rightarrow>
        ((case r of Inl err \<Rightarrow> (NilResponse, Some err) | Inr resp \<Rightarrow> (resp, None)),
         w\<lparr>network := n', trace := trace w @ [Admission True, Sent m t ctx]\<rparr>))"
  by (cases w)
     (simp add: NewErroringLimiter_def ClientEndpoint_def admit_all_def Let_def
        split: prod.splits sum.splits)

lemma limiter_after_Suc:
  "limiter_after Allow (Suc k) l = snd (Allow (limiter_after Allow k l))"
  by (induction k arbitrary: l) simp_all

lemma admitted_attempts_exchanges:
  fixes exchange m t ctx req d
  defines "ep \<equiv> NewErroringLimiter admit_all (ClientEndpoint exchange m t) ctx req"
  shows "exchanges_in (trace (snd (ep (attempt_start ep (wait d) k w))))
           = exchanges_in (trace w) + Suc k"
proof (induction k arbitrary: w)
  case 0
  show ?case by (simp add: ep_def limited_trace admit_all_def)
next
  case (Suc k)
  show ?case
    using Suc.IH [of "wait d (snd (ep w))"]
    by (simp add: ep_def limited_trace admit_all_def)
qed

lemma limited_fails:
  assumes "\<forall>n. \<exists>e. fst (exchange m t ctx req n) = Inl e \<and> retryable (Some e)"
  shows "retryable (snd (fst (NewErroringLimiter Allow (ClientEndpoint exchange m t) ctx req w)))"
proof (cases "fst (Allow (limiter_state w))")
  case True
  from assms obtain e where
    "fst (exchange m t ctx req (network w)) = Inl e" "retryable (Some e)"
    by blast
  with True show ?thesis
    by (simp add: limited_admitted prod_eq_iff ClientEndpoint_result)
next
  case False
  then show ?thesis by (simp add: limited_rejected)
qed

lemma admitted_attempts_network:
  fixes exchange m t ctx req d
  defines "ep \<equiv> NewErroringLimiter admit_all (ClientEndpoint exchange m t) ctx req"
  assumes "\<And>n. snd (exchange m t ctx req n) = Suc n"
  shows "network (attempt_start ep (wait d) k w) = network w + k"
proof (induction k arbitrary: w)
  case 0
  show ?case by simp
next
  case (Suc k)
  have "network (snd (ep w)) = Suc (network w)"
    by (simp add: ep_def limited_admitted admit_all_def ClientEndpoint_world assms(2))
  then show ?case
    using Suc.IH [of "wait d (snd (ep w))"] by simp
qed

lemma settle_snd [simp]: "snd (settle Pformat out) = snd out"
  by (simp add: settle_def)

lemma settle_error:
  "snd (fst out) = Some e \<Longrightarrow> fst (settle Pformat out) = (None, Some e)"
  by (simp add: settle_def)

text \<open>
  The permanent error on the sample client: one exchange, no wait, and the wrapped error
  as the result.
\<close>

lemma permanent_error_ends_loop:
  "CreateDeployment render (sample_client admit_all giving_up) (Caller False) ''d1'' (fresh ()) =
     ((None, Some (Opaque ''bad request'')),
      \<lparr>limiter_state = (), network = 1,
       trace = [Admission True, Sent ''POST'' ''http://localhost:8080/kfctl/create'' (Caller False)]\<rparr>)"
proof -
  let ?c = "sample_client admit_all giving_up"
  have "createEndpoint ?c (Caller False) ''d1''
          (attempt_start (createEndpoint ?c (Caller False) ''d1'') (wait (2 * Second)) 0 (fresh ()))
        = ((NilResponse, Some (PermanentError (Some (Opaque ''bad request'')))),
           \<lparr>limiter_state = (), network = 1,
            trace = [Admission True, Sent ''POST'' ''http://localhost:8080/kfctl/create'' (Caller False)]\<rparr>)"
    by (simp add: sample_client_endpoints admitted_exchange giving_up_def fresh_def)
  from CreateDeployment_permanent [OF _ _ this, of render]
  show ?thesis by (simp add: settle_def)
qed

lemma bucket_empty: "limiter_after bucket k 0 = 0"
  by (induction k) (simp_all add: limiter_after_Suc bucket_def del: limiter_after.simps(2))

section \<open>The claims\<close>

text \<open>
  C1. CreateDeployment runs its endpoint again exactly after an invocation that returned a
  transport-level error, that is, a non-nil error other than the permanent error of the
  backoff library (as long as the policy has retries left), and a decoded response ends
  the loop at once: when the attempts before attempt \<open>k\<close> returned such errors and attempt
  \<open>k\<close> returns the response \<open>r\<close> with a nil error, the method returns the result for
  \<open>r\<close>, classified once, in the world the endpoint left after attempt \<open>k\<close>, so nothing is
  invoked after it. In particular a definition decoded by the first attempt is returned as
  it is, whatever is left of the retry budget.
\<close>

theorem CreateDeployment_retries_on_error_only:
  assumes "k \<le> 30"
    and "\<forall>i<k. retryable (snd (fst (createEndpoint c ctx req
            (attempt_start (createEndpoint c ctx req) (wait (2 * Second)) i w))))"
    and "createEndpoint c ctx req
            (attempt_start (createEndpoint c ctx req) (wait (2 * Second)) k w) = ((r, None), w')"
  shows "CreateDeployment Pformat c ctx req w = (outcome_result (Classify Pformat r), w') \<and>
         (createEndpoint c ctx req w = ((KfDefPtr d, None), w0) \<longrightarrow>
            CreateDeployment Pformat c ctx req w = ((d, None), w0))"
proof (intro conjI)
  show "CreateDeployment Pformat c ctx req w = (outcome_result (Classify Pformat r), w')"
    using CreateDeployment_first_ok [OF assms(1,2), of Pformat] assms(3)
    by (simp add: settle_def)
  show "createEndpoint c ctx req w = ((KfDefPtr d, None), w0) \<longrightarrow>
            CreateDeployment Pformat c ctx req w = ((d, None), w0)"
    using CreateDeployment_first_ok [of 0 c ctx req w Pformat]
    by (simp add: settle_def)
qed

theorem CreateDeployment_retries_on_error_only_witness:
  "CreateDeployment render (sample_client admit_all flaky) (Caller False) ''d1'' (fresh ()) =
     ((Some ''d1'', None),
      \<lparr>limiter_state = (), network = 3,
       trace = [Admission True, Sent ''POST'' ''http://localhost:8080/kfctl/create'' (Caller False),
                Slept 2000000000,
                Admission True, Sent ''POST'' ''http://localhost:8080/kfctl/create'' (Caller False),
                Slept 2000000000,
                Admission True, Sent ''POST'' ''http://localhost:8080/kfctl/create'' (Caller False)]\<rparr>)
   \<and> CreateDeployment render (sample_client admit_all echoing) (Caller False) ''d1'' (fresh ()) =
     ((Some ''d1'', None),
      \<lparr>limiter_state = (), network = 1,
       trace = [Admission True, Sent ''POST'' ''http://localhost:8080/kfctl/create'' (Caller False)]\<rparr>)"
proof
  let ?c = "sample_client admit_all flaky"
  let ?ep = "createEndpoint ?c (Caller False) ''d1''"
  let ?w' = "\<lparr>limiter_state = (), network = 3,
       trace = [Admission True, Sent ''POST'' ''http://localhost:8080/kfctl/create'' (Caller False),
                Slept 2000000000,
                Admission True, Sent ''POST'' ''http://localhost:8080/kfctl/create'' (Caller False),
                Slept 2000000000,
                Admission True, Sent ''POST'' ''http://localhost:8080/kfctl/create'' (Caller False)]\<rparr>"
  have two: "(2::nat) \<le> 30" by simp
  have failed: "\<forall>i<2. retryable (snd (fst (?ep (attempt_start ?ep (wait (2 * Second)) i (fresh ())))))"
    by (auto simp: less_2_cases_iff sample_client_endpoints admitted_exchange
          flaky_def fresh_def wait_def Second_def)
  have third: "?ep (attempt_start ?ep (wait (2 * Second)) 2 (fresh ())) = ((KfDefPtr (Some ''d1''), None), ?w')"
    by (simp add: numeral_2_eq_2 sample_client_endpoints admitted_exchange
          flaky_def fresh_def wait_def Second_def)
  from CreateDeployment_retries_on_error_only [OF two failed third, of render]
  show "CreateDeployment render ?c (Caller False) ''d1'' (fresh ()) = ((Some ''d1'', None), ?w')"
    by simp
next
  let ?c = "sample_client admit_all echoing"
  let ?w0 = "\<lparr>limiter_state = (), network = 1,
       trace = [Admission True, Sent ''POST'' ''http://localhost:8080/kfctl/create'' (Caller False)]\<rparr>"
  have first: "createEndpoint ?c (Caller False) ''d1'' (fresh ()) = ((KfDefPtr (Some ''d1''), None), ?w0)"
    by (simp add: sample_client_endpoints admitted_exchange echoing_def fresh_def)
  have none: "(0::nat) \<le> 30" by simp
  have start: "createEndpoint ?c (Caller False) ''d1''
      (attempt_start (createEndpoint ?c (Caller False) ''d1'') (wait (2 * Second)) 0 (fresh ()))
        = ((KfDefPtr (Some ''d1''), None), ?w0)"
    using first by simp
  from CreateDeployment_retries_on_error_only [OF none _ start, of render "Some ''d1''" ?w0] first
  show "CreateDeployment render ?c (Caller False) ''d1'' (fresh ()) = ((Some ''d1'', None), ?w0)"
    by simp
qed

text \<open>
  C2. Classification of a decoded response is the ordered three-way branch of the
  specification's classifier: the assertion for a definition is tried first and, when it
  holds, its pointer is the result whatever else the value may be; otherwise the assertion
  for a structured error is tried and that error is returned; otherwise the generic error
  with the rendering of the raw value is returned. CreateDeployment and GetLatestKfdef
  map the same response to the same result.
\<close>

theorem classification_ordered_three_way:
  assumes "createEndpoint c ctx req w = ((r, None), w1)"
    and "getEndpoint c Background req v = ((r, None), v1)"
  shows "fst (CreateDeployment Pformat c ctx req w) = outcome_result (Classify Pformat r) \<and>
         fst (GetLatestKfdef Pformat c req v) = outcome_result (Classify Pformat r) \<and>
         fst (CreateDeployment Pformat c ctx req w) =
           (if snd (assertKfDef r) then (fst (assertKfDef r), None)
            else if snd (assertHttpError r)
              then (None, Some (HttpErr (fst (assertHttpError r))))
              else (None, Some (Errorf (''Recieved unexpected response; '' @ Pformat r))))"
proof -
  have create: "fst (CreateDeployment Pformat c ctx req w) = outcome_result (Classify Pformat r)"
    using CreateDeployment_first_ok [of 0 c ctx req w Pformat] assms(1)
    by (simp add: settle_def)
  have get: "fst (GetLatestKfdef Pformat c req v) = outcome_result (Classify Pformat r)"
    using assms(2) by (simp add: GetLatestKfdef_settle settle_def)
  have "outcome_result (Classify Pformat r) =
           (if snd (assertKfDef r) then (fst (assertKfDef r), None)
            else if snd (assertHttpError r)
              then (None, Some (HttpErr (fst (assertHttpError r))))
              else (None, Some (Errorf (''Recieved unexpected response; '' @ Pformat r))))"
    by (cases r) simp_all
  with create get show ?thesis by simp
qed

theorem classification_ordered_three_way_witness:
  "fst (CreateDeployment render (sample_client admit_all unrelated) (Caller False) ''d1'' (fresh ()))
     = (None, Some (Errorf ''Recieved unexpected response; value'')) \<and>
   fst (GetLatestKfdef render (sample_client admit_all unrelated) ''d1'' (fresh ()))
     = (None, Some (Errorf ''Recieved unexpected response; value''))"
proof -
  let ?c = "sample_client admit_all unrelated"
  let ?w = "\<lambda>ctx. \<lparr>limiter_state = (), network = 1,
       trace = [Admission True, Sent ''POST'' ''http://localhost:8080/kfctl/create'' ctx]\<rparr>"
  have create: "createEndpoint ?c (Caller False) ''d1'' (fresh ()) = ((OtherValue 7, None), ?w (Caller False))"
    by (simp add: sample_client_endpoints admitted_exchange unrelated_def fresh_def)
  have get: "getEndpoint ?c Background ''d1'' (fresh ()) = ((OtherValue 7, None), ?w Background)"
    by (simp add: sample_client_endpoints admitted_exchange unrelated_def fresh_def)
  from classification_ordered_three_way [OF create get, of render]
  show ?thesis by (simp add: render_def)
qed

text \<open>
  C3. When every attempt of CreateDeployment returns a transport-level error (a non-nil
  error other than the permanent error of the backoff library), all 31 of them, the method
  returns a nil result and the error of the last attempt.
\<close>

theorem CreateDeployment_returns_last_error:
  assumes "\<forall>i<31. retryable (snd (fst (createEndpoint c ctx req
            (attempt_start (createEndpoint c ctx req) (wait (2 * Second)) i w))))"
  shows "fst (CreateDeployment Pformat c ctx req w) =
           (None, snd (fst (createEndpoint c ctx req
              (attempt_start (createEndpoint c ctx req) (wait (2 * Second)) 30 w)))) \<and>
         snd (fst (CreateDeployment Pformat c ctx req w)) \<noteq> None"
proof -
  have "retryable (snd (fst (createEndpoint c ctx req
            (attempt_start (createEndpoint c ctx req) (wait (2 * Second)) 30 w))))"
    using assms by simp
  then have "snd (fst (createEndpoint c ctx req
            (attempt_start (createEndpoint c ctx req) (wait (2 * Second)) 30 w))) \<noteq> None"
    by (rule retryable_not_None)
  then show ?thesis
    using CreateDeployment_exhausted [OF assms, of Pformat] by (simp add: settle_def)
qed

theorem CreateDeployment_returns_last_error_witness:
  "fst (CreateDeployment render (sample_client admit_all numbered) (Caller False) ''d1'' (fresh ()))
     = (None, Some (Opaque (replicate 30 CHR ''I'')))"
proof -
  let ?c = "sample_client admit_all numbered"
  let ?ep = "createEndpoint ?c (Caller False) ''d1''"
  have always: "fst (?ep w) = (NilResponse, Some (Opaque (replicate (network w) CHR ''I'')))" for w
    by (simp add: sample_client_endpoints admitted_exchange numbered_def)
  have every: "\<forall>i<31. retryable (snd (fst (?ep (attempt_start ?ep (wait (2 * Second)) i (fresh ())))))"
    by (simp add: always)
  have "network (attempt_start ?ep (wait (2 * Second)) 30 (fresh ())) = network (fresh ()) + 30"
    unfolding sample_client_endpoints
    by (rule admitted_attempts_network) (simp add: numbered_def)
  then have last: "network (attempt_start ?ep (wait (2 * Second)) 30 (fresh ())) = 30"
    by (simp add: fresh_def)
  from CreateDeployment_returns_last_error [OF every, of render]
  show ?thesis by (simp add: always last)
qed




text \<open>
  C5 as stated fails: with a context that is already cancelled, and a remote side that fails
  every exchange under such a context, CreateDeployment still goes through the whole
  budget: 31 exchanges and 30 waits of 2 seconds.
\<close>

theorem CreateDeployment_cancelled_counterexample:
  "fst (CreateDeployment render (sample_client admit_all cancellable) (Caller True) ''d1'' (fresh ()))
     = (None, Some (Opaque ''context canceled'')) \<and>
   exchanges_in (trace (snd (CreateDeployment render (sample_client admit_all cancellable)
      (Caller True) ''d1'' (fresh ())))) = 31 \<and>
   pauses_in (trace (snd (CreateDeployment render (sample_client admit_all cancellable)
      (Caller True) ''d1'' (fresh ())))) = replicate 30 2000000000"
proof -
  let ?c = "sample_client admit_all cancellable"
  let ?ep = "createEndpoint ?c (Caller True) ''d1''"
  have always: "fst (?ep w) = (NilResponse, Some (Opaque ''context canceled''))" for w
    by (simp add: sample_client_endpoints admitted_exchange cancellable_def)
  have "\<forall>i<31. retryable (snd (fst (?ep (attempt_start ?ep (wait (2 * Second)) i (fresh ())))))"
    by (simp add: always)
  from CreateDeployment_exhausted [OF this, of render]
  have run: "CreateDeployment render ?c (Caller True) ''d1'' (fresh ())
          = settle render (?ep (attempt_start ?ep (wait (2 * Second)) 30 (fresh ())))" .
  have result: "fst (CreateDeployment render ?c (Caller True) ''d1'' (fresh ()))
                  = (None, Some (Opaque ''context canceled''))"
    unfolding run by (rule settle_error) (simp add: always)
  have exchanges: "exchanges_in (trace (snd (CreateDeployment render ?c (Caller True) ''d1'' (fresh ()))))
                  = 31"
    unfolding run
    by (simp add: sample_client_endpoints admitted_attempts_exchanges fresh_def)
  from limited_attempts_trace [of admit_all cancellable "''POST''"
      "''http://localhost:8080/kfctl/create''" "Caller True" "''d1''" "2 * Second" 30 "fresh ()"]
  have "pauses_in (trace (snd (?ep (attempt_start ?ep (wait (2 * Second)) 30 (fresh ())))))
          = replicate 30 (2 * Second)"
    by (auto simp: sample_client_endpoints fresh_def)
  then have pauses: "pauses_in (trace (snd (CreateDeployment render ?c (Caller True) ''d1'' (fresh ()))))
                  = replicate 30 2000000000"
    unfolding run by (simp add: Second_def)
  from result exchanges pauses show ?thesis by blast
qed

text \<open>
  C5, amended. CreateDeployment hands its context to the endpoint, so that every exchange
  it makes runs under it, and the retry loop itself never looks at it. So when the
  context is already cancelled or expired and every exchange under it fails with a
  transport-level error, the method makes all 31 invocations, with 30 waits of 2 seconds,
  and then returns a nil result with the error of the last invocation.
\<close>

theorem CreateDeployment_ignores_cancellation:
  assumes "NewKfctlClient Parse copyURL path Allow exchange instance = Inr c"
    and "Done ctx"
    and "\<forall>m u r n. Done ctx \<longrightarrow> (\<exists>e. fst (exchange m u ctx r n) = Inl e \<and> retryable (Some e))"
  shows "fst (CreateDeployment Pformat c ctx req w) =
           (None, snd (fst (createEndpoint c ctx req
              (attempt_start (createEndpoint c ctx req) (wait (2 * Second)) 30 w)))) \<and>
         snd (fst (CreateDeployment Pformat c ctx req w)) \<noteq> None \<and>
         (\<exists>es. trace (snd (CreateDeployment Pformat c ctx req w)) = trace w @ es \<and>
               attempts_in es = 31 \<and> pauses_in es = replicate 30 (2 * Second) \<and>
               set (contexts_in es) \<subseteq> {ctx})"
proof -
  from NewKfctlClient_endpoints [OF assms(1)] obtain u where
    create: "createEndpoint c = NewErroringLimiter Allow (ClientEndpoint exchange ''POST'' (copyURL u path))"
    by blast
  let ?last = "createEndpoint c ctx req
      (attempt_start (createEndpoint c ctx req) (wait (2 * Second)) 30 w)"
  have fails: "retryable (snd (fst (createEndpoint c ctx req v)))" for v
    unfolding create using assms(2,3) by (intro limited_fails) simp
  then have "\<forall>i<31. retryable (snd (fst (createEndpoint c ctx req
            (attempt_start (createEndpoint c ctx req) (wait (2 * Second)) i w))))"
    by simp
  from CreateDeployment_exhausted [OF this, of Pformat]
  have run: "CreateDeployment Pformat c ctx req w = settle Pformat ?last" .
  have error: "snd (fst ?last) \<noteq> None"
    using fails [of "attempt_start (createEndpoint c ctx req) (wait (2 * Second)) 30 w"]
    by (rule retryable_not_None)
  then have result: "fst (CreateDeployment Pformat c ctx req w) = (None, snd (fst ?last))"
    unfolding run by (simp add: settle_def)
  from limited_attempts_trace [of Allow exchange "''POST''" "copyURL u path" ctx req "2 * Second" 30 w]
  obtain es where
    "trace (snd ?last) = trace w @ es"
    "attempts_in es = 31" "pauses_in es = replicate 30 (2 * Second)"
    "set (contexts_in es) \<subseteq> {ctx}"
    unfolding create by auto
  then have "\<exists>es. trace (snd (CreateDeployment Pformat c ctx req w)) = trace w @ es \<and>
               attempts_in es = 31 \<and> pauses_in es = replicate 30 (2 * Second) \<and>
               set (contexts_in es) \<subseteq> {ctx}"
    unfolding run by (intro exI [of _ es]) simp
  with result error show ?thesis by simp
qed

theorem CreateDeployment_ignores_cancellation_witness:
  "fst (CreateDeployment render (sample_client admit_all cancellable) (Caller True) ''d1''
          (fresh ())) = (None, Some (Opaque ''context canceled'')) \<and>
   (\<exists>es. trace (snd (CreateDeployment render (sample_client admit_all cancellable) (Caller True)
              ''d1'' (fresh ()))) = es \<and>
         attempts_in es = 31 \<and> pauses_in es = replicate 30 (2 * Second) \<and>
         set (contexts_in es) \<subseteq> {Caller True})"
proof -
  let ?c = "sample_client admit_all cancellable"
  have cancelled: "Done (Caller True)" by simp
  have fails: "\<forall>m u r n. Done (Caller True) \<longrightarrow>
      (\<exists>e. fst (cancellable m u (Caller True) r n) = Inl e \<and> retryable (Some e))"
    by (simp add: cancellable_def)
  have always: "fst (createEndpoint ?c (Caller True) ''d1'' v)
                  = (NilResponse, Some (Opaque ''context canceled''))" for v
    by (simp add: sample_client_endpoints admitted_exchange cancellable_def)
  from CreateDeployment_ignores_cancellation [where Allow = admit_all and exchange = cancellable
      and ctx = "Caller True" and Pformat = render and req = "''d1''" and w = "fresh ()",
      OF sample_client_built cancelled fails]
  show ?thesis by (simp add: always fresh_def)
qed

text \<open>
  C6. The constructor makes one limiter and puts it in front of both endpoints, so every
  invocation of either endpoint, each attempt of a retried CreateDeployment included, asks
  the same limiter once. When the limiter rejects, the endpoint returns a nil response
  and \<open>ErrLimited\<close> at once, and the wrapped endpoint is not invoked: the network is
  untouched and no exchange is on the trace. Inside CreateDeployment a rejection is an
  error like any other and uses up the budget: 31 rejections in a row end the call with
  \<open>ErrLimited\<close> and no exchange at all.
\<close>

theorem limiter_shared_and_erroring:
  assumes "NewKfctlClient Parse copyURL path Allow exchange instance = Inr c"
  shows "(\<not> fst (Allow (limiter_state w)) \<longrightarrow>
            createEndpoint c ctx req w =
              ((NilResponse, Some ErrLimited),
               w\<lparr>limiter_state := snd (Allow (limiter_state w)),
                  trace := trace w @ [Admission False]\<rparr>) \<and>
            getEndpoint c ctx req w =
              ((NilResponse, Some ErrLimited),
               w\<lparr>limiter_state := snd (Allow (limiter_state w)),
                  trace := trace w @ [Admission False]\<rparr>)) \<and>
         limiter_state (snd (createEndpoint c ctx req w)) = snd (Allow (limiter_state w)) \<and>
         limiter_state (snd (getEndpoint c ctx req w)) = snd (Allow (limiter_state w)) \<and>
         (\<exists>es. trace (snd (CreateDeployment Pformat c ctx req w)) = trace w @ es \<and>
               limiter_state (snd (CreateDeployment Pformat c ctx req w)) =
                 limiter_after Allow (attempts_in es) (limiter_state w)) \<and>
         ((\<forall>i<31. \<not> fst (Allow (limiter_after Allow i (limiter_state w)))) \<longrightarrow>
            fst (CreateDeployment Pformat c ctx req w) = (None, Some ErrLimited) \<and>
            network (snd (CreateDeployment Pformat c ctx req w)) = network w \<and>
            limiter_state (snd (CreateDeployment Pformat c ctx req w)) =
              limiter_after Allow 31 (limiter_state w))"
proof -
  from NewKfctlClient_endpoints [OF assms] obtain u where
    create: "createEndpoint c = NewErroringLimiter Allow (ClientEndpoint exchange ''POST'' (copyURL u path))"
    and get: "getEndpoint c = NewErroringLimiter Allow (ClientEndpoint exchange ''POST'' (copyURL u path))"
    by blast
  let ?ep = "createEndpoint c ctx req"
  have rejected: "\<not> fst (Allow (limiter_state w)) \<longrightarrow>
            createEndpoint c ctx req w =
              ((NilResponse, Some ErrLimited),
               w\<lparr>limiter_state := snd (Allow (limiter_state w)),
                  trace := trace w @ [Admission False]\<rparr>) \<and>
            getEndpoint c ctx req w =
              ((NilResponse, Some ErrLimited),
               w\<lparr>limiter_state := snd (Allow (limiter_state w)),
                  trace := trace w @ [Admission False]\<rparr>)"
    by (simp add: create get limited_rejected)
  have one: "limiter_state (snd (createEndpoint c ctx req w)) = snd (Allow (limiter_state w))"
    "limiter_state (snd (getEndpoint c ctx req w)) = snd (Allow (limiter_state w))"
    by (simp_all add: create get limited_limiter)
  have after: "limiter_state (snd (?ep (attempt_start ?ep (wait (2 * Second)) k w)))
                 = limiter_after Allow (Suc k) (limiter_state w)" for k
    unfolding limiter_after_Suc create
    by (simp add: limited_limiter limited_attempts_limiter)
  have every: "\<exists>es. trace (snd (CreateDeployment Pformat c ctx req w)) = trace w @ es \<and>
               limiter_state (snd (CreateDeployment Pformat c ctx req w)) =
                 limiter_after Allow (attempts_in es) (limiter_state w)"
  proof -
    from CreateDeployment_run [of Pformat c ctx req w] obtain k where
      k: "CreateDeployment Pformat c ctx req w
            = settle Pformat (after_retry (?ep (attempt_start ?ep (wait (2 * Second)) k w)))"
      by blast
    from limited_attempts_trace [of Allow exchange "''POST''" "copyURL u path" ctx req "2 * Second" k w]
    obtain es where "trace (snd (?ep (attempt_start ?ep (wait (2 * Second)) k w))) = trace w @ es"
      "attempts_in es = Suc k"
      unfolding create by blast
    then show ?thesis
      unfolding k by (intro exI [of _ es]) (simp add: after)
  qed
  have starved: "(\<forall>i<31. \<not> fst (Allow (limiter_after Allow i (limiter_state w)))) \<longrightarrow>
            fst (CreateDeployment Pformat c ctx req w) = (None, Some ErrLimited) \<and>
            network (snd (CreateDeployment Pformat c ctx req w)) = network w \<and>
            limiter_state (snd (CreateDeployment Pformat c ctx req w)) =
              limiter_after Allow 31 (limiter_state w)"
  proof
    assume no: "\<forall>i<31. \<not> fst (Allow (limiter_after Allow i (limiter_state w)))"
    have at: "?ep (attempt_start ?ep (wait (2 * Second)) i w) =
                ((NilResponse, Some ErrLimited),
                 (attempt_start ?ep (wait (2 * Second)) i w)
                   \<lparr>limiter_state := snd (Allow (limiter_state (attempt_start ?ep (wait (2 * Second)) i w))),
                    trace := trace (attempt_start ?ep (wait (2 * Second)) i w) @ [Admission False]\<rparr>)"
      if "i < 31" for i
    proof -
      have "limiter_state (attempt_start ?ep (wait (2 * Second)) i w)
              = limiter_after Allow i (limiter_state w)"
        unfolding create by (rule limited_attempts_limiter)
      with no that have "\<not> fst (Allow (limiter_state (attempt_start ?ep (wait (2 * Second)) i w)))"
        by simp
      then show ?thesis
        unfolding create by (rule limited_rejected)
    qed
    then have "\<forall>i<31. retryable (snd (fst (?ep (attempt_start ?ep (wait (2 * Second)) i w))))"
      by simp
    from CreateDeployment_exhausted [OF this, of Pformat]
    have run: "CreateDeployment Pformat c ctx req w
                 = settle Pformat (?ep (attempt_start ?ep (wait (2 * Second)) 30 w))" .
    have "\<forall>i<30. \<not> fst (Allow (limiter_after Allow i (limiter_state w)))"
      using no by simp
    then have net: "network (attempt_start ?ep (wait (2 * Second)) 30 w) = network w"
      unfolding create by (rule limited_attempts_network)
    show "fst (CreateDeployment Pformat c ctx req w) = (None, Some ErrLimited) \<and>
            network (snd (CreateDeployment Pformat c ctx req w)) = network w \<and>
            limiter_state (snd (CreateDeployment Pformat c ctx req w)) =
              limiter_after Allow 31 (limiter_state w)"
      unfolding run using at [of 30] net after [of 30]
      by (simp add: settle_def)
  qed
  from rejected one every starved show ?thesis by blast
qed

theorem limiter_shared_and_erroring_witness:
  "fst (GetLatestKfdef render (sample_client bucket echoing) ''d0'' (fresh 1)) = (Some ''d0'', None) \<and>
   fst (CreateDeployment render (sample_client bucket echoing) (Caller False) ''d1''
          (snd (GetLatestKfdef render (sample_client bucket echoing) ''d0'' (fresh 1))))
     = (None, Some ErrLimited) \<and>
   network (snd (CreateDeployment render (sample_client bucket echoing) (Caller False) ''d1''
          (snd (GetLatestKfdef render (sample_client bucket echoing) ''d0'' (fresh 1))))) = 1"
proof -
  let ?c = "sample_client bucket echoing"
  let ?w = "\<lparr>limiter_state = 0 :: nat, network = 1 :: nat,
       trace = [Admission True, Sent ''POST'' ''http://localhost:8080/kfctl/create'' Background]\<rparr>"
  have get: "GetLatestKfdef render ?c ''d0'' (fresh 1) = ((Some ''d0'', None), ?w)"
    by (simp add: GetLatestKfdef_settle settle_def sample_client_endpoints NewErroringLimiter_def
          ClientEndpoint_def bucket_def echoing_def fresh_def)
  have empty: "\<forall>i<31. \<not> fst (bucket (limiter_after bucket i (limiter_state ?w)))"
    by (simp add: bucket_empty bucket_def)
  from limiter_shared_and_erroring [where Allow = bucket and exchange = echoing and w = ?w
      and Pformat = render and ctx = "Caller False" and req = "''d1''", OF sample_client_built] empty
  have "fst (CreateDeployment render ?c (Caller False) ''d1'' ?w) = (None, Some ErrLimited) \<and>
        network (snd (CreateDeployment render ?c (Caller False) ''d1'' ?w)) = 1"
    by simp
  with get show ?thesis by simp
qed

text \<open>
  C7. GetLatestKfdef invokes its rate-limited endpoint exactly once and waits for nothing.
  The invocation asks the limiter once: when the limiter rejects, the method returns
  \<open>ErrLimited\<close> with no exchange made; when it admits, the method makes exactly one
  exchange, with the target of the get endpoint under \<^verbatim>\<open>context.Background()\<close>, and
  returns the error of that exchange as it is or, for a decoded response, the result of
  the classification that CreateDeployment applies.
\<close>

theorem GetLatestKfdef_single_invocation:
  assumes "NewKfctlClient Parse copyURL path Allow exchange instance = Inr c"
  shows "snd (GetLatestKfdef Pformat c req w) = snd (getEndpoint c Background req w) \<and>
         limiter_state (snd (GetLatestKfdef Pformat c req w)) = snd (Allow (limiter_state w)) \<and>
         (\<not> fst (Allow (limiter_state w)) \<longrightarrow>
            GetLatestKfdef Pformat c req w =
              ((None, Some ErrLimited),
               w\<lparr>limiter_state := snd (Allow (limiter_state w)),
                  trace := trace w @ [Admission False]\<rparr>)) \<and>
         (fst (Allow (limiter_state w)) \<longrightarrow>
            (\<exists>u. Parse (if HasPrefix instance ''http'' then instance else ''http://'' @ instance)
                    = Inr u \<and>
                 trace (snd (GetLatestKfdef Pformat c req w)) =
                   trace w @ [Admission True, Sent ''POST'' (copyURL u path) Background] \<and>
                 network (snd (GetLatestKfdef Pformat c req w)) =
                   snd (exchange ''POST'' (copyURL u path) Background req (network w)) \<and>
                 fst (GetLatestKfdef Pformat c req w) =
                   (case fst (exchange ''POST'' (copyURL u path) Background req (network w)) of
                      Inl err \<Rightarrow> (None, Some err)
                    | Inr r \<Rightarrow> outcome_result (Classify Pformat r)))) \<and>
         (\<exists>es. trace (snd (GetLatestKfdef Pformat c req w)) = trace w @ es \<and>
               attempts_in es = 1 \<and> exchanges_in es \<le> 1 \<and> pauses_in es = []) \<and>
         (\<forall>e. snd (fst (getEndpoint c Background req w)) = Some e \<longrightarrow>
               fst (GetLatestKfdef Pformat c req w) = (None, Some e)) \<and>
         (\<forall>r. fst (getEndpoint c Background req w) = (r, None) \<longrightarrow>
               fst (GetLatestKfdef Pformat c req w) = outcome_result (Classify Pformat r) \<and>
               (\<forall>ctx v v1. createEndpoint c ctx req v = ((r, None), v1) \<longrightarrow>
                  fst (CreateDeployment Pformat c ctx req v) = fst (GetLatestKfdef Pformat c req w)))"
proof -
  from NewKfctlClient_endpoints [OF assms] obtain u where
    u: "Parse (if HasPrefix instance ''http'' then instance else ''http://'' @ instance) = Inr u"
    and get: "getEndpoint c = NewErroringLimiter Allow (ClientEndpoint exchange ''POST'' (copyURL u path))"
    by blast
  let ?x = "exchange ''POST'' (copyURL u path) Background req (network w)"
  have world: "snd (GetLatestKfdef Pformat c req w) = snd (getEndpoint c Background req w)"
    by (simp add: GetLatestKfdef_settle)
  have limiter: "limiter_state (snd (GetLatestKfdef Pformat c req w)) = snd (Allow (limiter_state w))"
    by (simp add: world get limited_limiter)
  have rejected: "\<not> fst (Allow (limiter_state w)) \<longrightarrow>
            GetLatestKfdef Pformat c req w =
              ((None, Some ErrLimited),
               w\<lparr>limiter_state := snd (Allow (limiter_state w)),
                  trace := trace w @ [Admission False]\<rparr>)"
    by (simp add: GetLatestKfdef_settle settle_def get limited_rejected)
  have admitted: "fst (Allow (limiter_state w)) \<longrightarrow>
            (\<exists>u. Parse (if HasPrefix instance ''http'' then instance else ''http://'' @ instance)
                    = Inr u \<and>
                 trace (snd (GetLatestKfdef Pformat c req w)) =
                   trace w @ [Admission True, Sent ''POST'' (copyURL u path) Background] \<and>
                 network (snd (GetLatestKfdef Pformat c req w)) =
                   snd (exchange ''POST'' (copyURL u path) Background req (network w)) \<and>
                 fst (GetLatestKfdef Pformat c req w) =
                   (case fst (exchange ''POST'' (copyURL u path) Background req (network w)) of
                      Inl err \<Rightarrow> (None, Some err)
                    | Inr r \<Rightarrow> outcome_result (Classify Pformat r)))"
  proof
    assume yes: "fst (Allow (limiter_state w))"
    have t: "trace (snd (GetLatestKfdef Pformat c req w)) =
               trace w @ [Admission True, Sent ''POST'' (copyURL u path) Background]"
      using yes by (simp add: world get limited_trace)
    have n: "network (snd (GetLatestKfdef Pformat c req w)) = snd ?x"
      using yes by (simp add: world get limited_admitted ClientEndpoint_world)
    have "fst (getEndpoint c Background req w) =
            (case fst ?x of Inl err \<Rightarrow> (NilResponse, Some err) | Inr resp \<Rightarrow> (resp, None))"
      using yes by (simp add: get limited_admitted ClientEndpoint_result)
    then have r: "fst (GetLatestKfdef Pformat c req w) =
                   (case fst ?x of Inl err \<Rightarrow> (None, Some err)
                    | Inr r \<Rightarrow> outcome_result (Classify Pformat r))"
      by (cases "fst ?x") (simp_all add: GetLatestKfdef_settle settle_def)
    from u t n r show "\<exists>u. Parse (if HasPrefix instance ''http'' then instance else ''http://'' @ instance)
                    = Inr u \<and>
                 trace (snd (GetLatestKfdef Pformat c req w)) =
                   trace w @ [Admission True, Sent ''POST'' (copyURL u path) Background] \<and>
                 network (snd (GetLatestKfdef Pformat c req w)) =
                   snd (exchange ''POST'' (copyURL u path) Background req (network w)) \<and>
                 fst (GetLatestKfdef Pformat c req w) =
                   (case fst (exchange ''POST'' (copyURL u path) Background req (network w)) of
                      Inl err \<Rightarrow> (None, Some err)
                    | Inr r \<Rightarrow> outcome_result (Classify Pformat r))"
      by blast
  qed
  from limited_attempts_trace [of Allow exchange "''POST''" "copyURL u path" Background req 0 0 w]
  have once: "\<exists>es. trace (snd (GetLatestKfdef Pformat c req w)) = trace w @ es \<and>
               attempts_in es = 1 \<and> exchanges_in es \<le> 1 \<and> pauses_in es = []"
    by (auto simp: world get)
  have failed: "\<forall>e. snd (fst (getEndpoint c Background req w)) = Some e \<longrightarrow>
               fst (GetLatestKfdef Pformat c req w) = (None, Some e)"
    by (simp add: GetLatestKfdef_settle settle_def)
  have decoded: "\<forall>r. fst (getEndpoint c Background req w) = (r, None) \<longrightarrow>
               fst (GetLatestKfdef Pformat c req w) = outcome_result (Classify Pformat r) \<and>
               (\<forall>ctx v v1. createEndpoint c ctx req v = ((r, None), v1) \<longrightarrow>
                  fst (CreateDeployment Pformat c ctx req v) = fst (GetLatestKfdef Pformat c req w))"
  proof (intro allI impI conjI)
    fix r assume r: "fst (getEndpoint c Background req w) = (r, None)"
    then show g: "fst (GetLatestKfdef Pformat c req w) = outcome_result (Classify Pformat r)"
      by (simp add: GetLatestKfdef_settle settle_def)
    fix ctx v v1 assume "createEndpoint c ctx req v = ((r, None), v1)"
    then have "fst (CreateDeployment Pformat c ctx req v) = outcome_result (Classify Pformat r)"
      using CreateDeployment_first_ok [of 0 c ctx req v Pformat] by (simp add: settle_def)
    with g show "fst (CreateDeployment Pformat c ctx req v) = fst (GetLatestKfdef Pformat c req w)"
      by simp
  qed
  from world limiter rejected admitted once failed decoded show ?thesis
    by (intro conjI)
qed

theorem GetLatestKfdef_single_invocation_witness:
  "GetLatestKfdef render (sample_client bucket echoing) ''d1'' (fresh 0) =
     ((None, Some ErrLimited), \<lparr>limiter_state = 0, network = 0, trace = [Admission False]\<rparr>) \<and>
   fst (GetLatestKfdef render (sample_client bucket refusing) ''d1'' (fresh 1))
     = (None, Some (Opaque ''connection refused'')) \<and>
   trace (snd (GetLatestKfdef render (sample_client bucket refusing) ''d1'' (fresh 1)))
     = [Admission True, Sent ''POST'' ''http://localhost:8080/kfctl/create'' Background] \<and>
   network (snd (GetLatestKfdef render (sample_client bucket refusing) ''d1'' (fresh 1))) = 1 \<and>
   limiter_state (snd (GetLatestKfdef render (sample_client bucket refusing) ''d1'' (fresh 1))) = 0 \<and>
   fst (GetLatestKfdef render (sample_client bucket failing) ''d1'' (fresh 1))
     = (None, Some (HttpErr (Some ''quota exceeded'')))"
proof -
  have empty: "\<not> fst (bucket (limiter_state (fresh 0)))"
    by (simp add: bucket_def fresh_def)
  have token: "fst (bucket (limiter_state (fresh 1)))"
    by (simp add: bucket_def fresh_def)
  from GetLatestKfdef_single_invocation [where Allow = bucket and exchange = echoing
      and Pformat = render and req = "''d1''" and w = "fresh 0", OF sample_client_built] empty
  have rejected: "GetLatestKfdef render (sample_client bucket echoing) ''d1'' (fresh 0) =
     ((None, Some ErrLimited), \<lparr>limiter_state = 0, network = 0, trace = [Admission False]\<rparr>)"
    by (simp add: bucket_def fresh_def)
  from GetLatestKfdef_single_invocation [where Allow = bucket and exchange = refusing
      and Pformat = render and req = "''d1''" and w = "fresh 1", OF sample_client_built] token
  have refused: "fst (GetLatestKfdef render (sample_client bucket refusing) ''d1'' (fresh 1))
     = (None, Some (Opaque ''connection refused'')) \<and>
   trace (snd (GetLatestKfdef render (sample_client bucket refusing) ''d1'' (fresh 1)))
     = [Admission True, Sent ''POST'' ''http://localhost:8080/kfctl/create'' Background] \<and>
   network (snd (GetLatestKfdef render (sample_client bucket refusing) ''d1'' (fresh 1))) = 1 \<and>
   limiter_state (snd (GetLatestKfdef render (sample_client bucket refusing) ''d1'' (fresh 1))) = 0"
    by (auto simp: HasPrefix_def parse_any_def join_path_def create_path_def refusing_def
          bucket_def fresh_def)
  from GetLatestKfdef_single_invocation [where Allow = bucket and exchange = failing
      and Pformat = render and req = "''d1''" and w = "fresh 1", OF sample_client_built] token
  have structured: "fst (GetLatestKfdef render (sample_client bucket failing) ''d1'' (fresh 1))
     = (None, Some (HttpErr (Some ''quota exceeded'')))"
    by (auto simp: HasPrefix_def parse_any_def failing_def fresh_def)
  from rejected refused structured show ?thesis by simp
qed

text \<open>
  C8 as stated fails: the address \<open>httpbin.org\<close> names no scheme, and the constructor
  gives it to the parser as it is, without the prefix \<open>http://\<close>. (The parser of the
  sample rejects every address and reports the string it was given.)
\<close>

theorem NewKfctlClient_address_counterexample:
  "\<not> marks_scheme ''httpbin.org'' \<and>
   NewKfctlClient parse_none join_path create_path admit_all echoing ''httpbin.org''
     = Inl (Opaque ''httpbin.org'')"
  by (simp add: NewKfctlClient_def HasPrefix_def parse_none_def)

text \<open>
  C8, amended. The constructor prefixes \<open>http://\<close> to an address that does not begin
  with the four characters \<open>http\<close> and leaves any other address as it is; it parses the
  resulting string, which begins with \<open>http\<close>, and fails exactly when parsing fails, with
  the parser's error and no client.
\<close>

theorem NewKfctlClient_address:
  "(\<not> HasPrefix instance ''http'' \<longrightarrow>
      isl (NewKfctlClient Parse copyURL path Allow exchange instance)
        = isl (Parse (''http://'' @ instance)) \<and>
      (\<forall>err. Parse (''http://'' @ instance) = Inl err \<longrightarrow>
         NewKfctlClient Parse copyURL path Allow exchange instance = Inl (Opaque err))) \<and>
   (HasPrefix instance ''http'' \<longrightarrow>
      isl (NewKfctlClient Parse copyURL path Allow exchange instance) = isl (Parse instance) \<and>
      (\<forall>err. Parse instance = Inl err \<longrightarrow>
         NewKfctlClient Parse copyURL path Allow exchange instance = Inl (Opaque err))) \<and>
   HasPrefix (if HasPrefix instance ''http'' then instance else ''http://'' @ instance) ''http''"
  by (auto simp: NewKfctlClient_def Let_def HasPrefix_def split: sum.splits)

theorem NewKfctlClient_address_witness:
  "\<not> HasPrefix ''my host'' ''http'' \<and>
   NewKfctlClient parse_no_space join_path create_path admit_all echoing ''my host''
     = Inl (Opaque ''invalid character in host name'') \<and>
   HasPrefix ''https://kfctl.example'' ''http'' \<and>
   \<not> isl (NewKfctlClient parse_no_space join_path create_path admit_all echoing
            ''https://kfctl.example'')"
proof -
  have plain: "\<not> HasPrefix ''my host'' ''http''"
    by (simp add: HasPrefix_def)
  have secure: "HasPrefix ''https://kfctl.example'' ''http''"
    by (simp add: HasPrefix_def)
  have bad: "parse_no_space (''http://'' @ ''my host'') = Inl ''invalid character in host name''"
    by (simp add: parse_no_space_def)
  have good: "\<not> isl (parse_no_space ''https://kfctl.example'')"
    by (simp add: parse_no_space_def)
  from NewKfctlClient_address [of "''my host''" parse_no_space join_path create_path admit_all echoing]
    plain bad
  have first: "NewKfctlClient parse_no_space join_path create_path admit_all echoing ''my host''
     = Inl (Opaque ''invalid character in host name'')"
    by blast
  from NewKfctlClient_address [of "''https://kfctl.example''" parse_no_space join_path create_path
      admit_all echoing] secure good
  have "\<not> isl (NewKfctlClient parse_no_space join_path create_path admit_all echoing
            ''https://kfctl.example'')"
    by blast
  with plain secure first show ?thesis by blast
qed

text \<open>
  C9 fails on the code: the get endpoint is built with \<^verbatim>\<open>KfctlCreatePath\<close>, the path of the
  create operation. On the sample client a GetLatestKfdef sends its one exchange to the
  URL that CreateDeployment uses.
\<close>

theorem GetLatestKfdef_targets_create_path:
  "trace (snd (GetLatestKfdef render (sample_client admit_all echoing) ''d1'' (fresh ())))
     = [Admission True, Sent ''POST'' (join_path ''http://localhost:8080'' create_path) Background] \<and>
   trace (snd (CreateDeployment render (sample_client admit_all echoing) (Caller False) ''d1'' (fresh ())))
     = [Admission True, Sent ''POST'' (join_path ''http://localhost:8080'' create_path) (Caller False)] \<and>
   getEndpoint (sample_client admit_all echoing) = createEndpoint (sample_client admit_all echoing)"
proof -
  let ?c = "sample_client admit_all echoing"
  have get: "trace (snd (GetLatestKfdef render ?c ''d1'' (fresh ())))
     = [Admission True, Sent ''POST'' (join_path ''http://localhost:8080'' create_path) Background]"
    by (simp add: GetLatestKfdef_settle sample_client_endpoints admitted_exchange echoing_def
          fresh_def join_path_def create_path_def)
  have "snd (fst (createEndpoint ?c (Caller False) ''d1''
          (attempt_start (createEndpoint ?c (Caller False) ''d1'') (wait (2 * Second)) 0 (fresh ()))))
        = None"
    by (simp add: sample_client_endpoints admitted_exchange echoing_def)
  from CreateDeployment_first_ok [OF _ _ this, of render]
  have create: "trace (snd (CreateDeployment render ?c (Caller False) ''d1'' (fresh ())))
     = [Admission True, Sent ''POST'' (join_path ''http://localhost:8080'' create_path) (Caller False)]"
    by (simp add: sample_client_endpoints admitted_exchange echoing_def
          fresh_def join_path_def create_path_def)
  from get create show ?thesis
    by (simp add: sample_client_endpoints)
qed

text \<open>
  C10 as stated fails: when the response is a nil pointer to a definition, the assertion
  for a definition holds and both methods return that nil pointer with a nil error. The
  same happens in CreateDeployment when such a response comes with a permanent error that
  wraps nil, which the retry loop returns as a nil error.
\<close>

theorem nil_result_and_nil_error_counterexample:
  "fst (GetLatestKfdef render (sample_client admit_all nil_definition) ''d1'' (fresh ()))
     = (None, None) \<and>
   fst (CreateDeployment render (sample_client admit_all nil_definition) (Caller False) ''d1''
          (fresh ())) = (None, None) \<and>
   fst (CreateDeployment render (stub_client (KfDefPtr None, Some (PermanentError None)))
          (Caller False) ''d1'' (fresh ())) = (None, None)"
proof -
  let ?c = "sample_client admit_all nil_definition"
  have get: "fst (GetLatestKfdef render ?c ''d1'' (fresh ())) = (None, None)"
    by (simp add: GetLatestKfdef_settle settle_def sample_client_endpoints admitted_exchange
          nil_definition_def)
  have "snd (fst (createEndpoint ?c (Caller False) ''d1''
          (attempt_start (createEndpoint ?c (Caller False) ''d1'') (wait (2 * Second)) 0 (fresh ()))))
        = None"
    by (simp add: sample_client_endpoints admitted_exchange nil_definition_def)
  from CreateDeployment_first_ok [OF _ _ this, of render]
  have create: "fst (CreateDeployment render ?c (Caller False) ''d1'' (fresh ())) = (None, None)"
    by (simp add: settle_def sample_client_endpoints admitted_exchange nil_definition_def)
  let ?s = "stub_client (KfDefPtr None, Some (PermanentError None))"
  have "createEndpoint ?s (Caller False) ''d1''
          (attempt_start (createEndpoint ?s (Caller False) ''d1'') (wait (2 * Second)) 0 (fresh ()))
        = ((KfDefPtr None, Some (PermanentError None)), fresh ())"
    by (simp add: stub_client_def)
  from CreateDeployment_permanent [OF _ _ this, of render]
  have "fst (CreateDeployment render ?s (Caller False) ''d1'' (fresh ())) = (None, None)"
    by (simp add: settle_def)
  with get create show ?thesis by simp
qed

text \<open>
  C10, amended. As long as the endpoint does not return a nil pointer to a definition
  together with a nil error (or, for CreateDeployment, together with a permanent error
  that wraps nil), every return of CreateDeployment and of GetLatestKfdef has exactly one
  of the two: a non-nil definition with a nil error, or a nil result with a non-nil error.
\<close>

theorem one_of_result_or_error:
  assumes "\<forall>v. fst (createEndpoint c ctx req v) \<noteq> (KfDefPtr None, None) \<and>
               fst (createEndpoint c ctx req v) \<noteq> (KfDefPtr None, Some (PermanentError None))"
    and "fst (getEndpoint c Background req w) \<noteq> (KfDefPtr None, None)"
  shows "(fst (fst (CreateDeployment Pformat c ctx req w)) = None)
           \<noteq> (snd (fst (CreateDeployment Pformat c ctx req w)) = None) \<and>
         (fst (fst (GetLatestKfdef Pformat c req w)) = None)
           \<noteq> (snd (fst (GetLatestKfdef Pformat c req w)) = None)"
proof -
  have one: "(fst (fst (settle Pformat out)) = None) \<noteq> (snd (fst (settle Pformat out)) = None)"
    if "fst out \<noteq> (KfDefPtr None, None)" for out
  proof (cases "snd (fst out)")
    case (Some e)
    then show ?thesis by (simp add: settle_def)
  next
    case None
    with that have "fst (fst out) \<noteq> KfDefPtr None"
      by (metis prod.collapse)
    with None show ?thesis
      by (cases "fst (fst out)") (auto simp: settle_def)
  qed
  have wraps: "e = None \<or> e = Some (PermanentError None)"
    if "returned_error e = None" for e
    using that by (cases e rule: returned_error.cases) simp_all
  have kept: "fst (after_retry out) \<noteq> (KfDefPtr None, None)"
    if "fst out \<noteq> (KfDefPtr None, None)" "fst out \<noteq> (KfDefPtr None, Some (PermanentError None))"
    for out
  proof (cases out)
    case (Pair re v)
    obtain r e where re: "re = (r, e)" by (cases re)
    from that have "\<not> (r = KfDefPtr None \<and> (e = None \<or> e = Some (PermanentError None)))"
      unfolding Pair re by auto
    with wraps [of e] show ?thesis
      unfolding Pair re by (auto simp: after_retry_def)
  qed
  from CreateDeployment_run [of Pformat c ctx req w] obtain k where
    run: "CreateDeployment Pformat c ctx req w =
       settle Pformat (after_retry
         (createEndpoint c ctx req (attempt_start (createEndpoint c ctx req) (wait (2 * Second)) k w)))"
    by blast
  let ?out = "createEndpoint c ctx req (attempt_start (createEndpoint c ctx req) (wait (2 * Second)) k w)"
  have "fst ?out \<noteq> (KfDefPtr None, None)"
    and "fst ?out \<noteq> (KfDefPtr None, Some (PermanentError None))"
    using assms(1) by blast+
  then have "fst (after_retry ?out) \<noteq> (KfDefPtr None, None)"
    by (rule kept)
  from one [OF this]
  have create: "(fst (fst (CreateDeployment Pformat c ctx req w)) = None)
           \<noteq> (snd (fst (CreateDeployment Pformat c ctx req w)) = None)"
    unfolding run .
  from one [OF assms(2)]
  have get: "(fst (fst (GetLatestKfdef Pformat c req w)) = None)
           \<noteq> (snd (fst (GetLatestKfdef Pformat c req w)) = None)"
    unfolding GetLatestKfdef_settle .
  from create get show ?thesis by (rule conjI)
qed

theorem one_of_result_or_error_witness:
  "fst (CreateDeployment render (sample_client admit_all echoing) (Caller False) ''d1'' (fresh ()))
     = (Some ''d1'', None) \<and>
   fst (GetLatestKfdef render (sample_client admit_all echoing) ''d1'' (fresh ()))
     = (Some ''d1'', None)"
proof -
  let ?c = "sample_client admit_all echoing"
  have create: "\<forall>v. fst (createEndpoint ?c (Caller False) ''d1'' v) \<noteq> (KfDefPtr None, None) \<and>
      fst (createEndpoint ?c (Caller False) ''d1'' v) \<noteq> (KfDefPtr None, Some (PermanentError None))"
    by (simp add: sample_client_endpoints admitted_exchange echoing_def)
  have get: "fst (getEndpoint ?c Background ''d1'' (fresh ())) \<noteq> (KfDefPtr None, None)"
    by (simp add: sample_client_endpoints admitted_exchange echoing_def)
  have "snd (fst (createEndpoint ?c (Caller False) ''d1''
          (attempt_start (createEndpoint ?c (Caller False) ''d1'') (wait (2 * Second)) 0 (fresh ()))))
        = None"
    by (simp add: sample_client_endpoints admitted_exchange echoing_def)
  from CreateDeployment_first_ok [OF _ _ this, of render]
  have a: "fst (fst (CreateDeployment render ?c (Caller False) ''d1'' (fresh ()))) = Some ''d1''"
    by (simp add: settle_def sample_client_endpoints admitted_exchange echoing_def)
  have b: "fst (fst (GetLatestKfdef render ?c ''d1'' (fresh ()))) = Some ''d1''"
    by (simp add: GetLatestKfdef_settle settle_def sample_client_endpoints admitted_exchange
          echoing_def)
  from one_of_result_or_error [OF create get, of render] a b
  show ?thesis by (simp add: prod_eq_iff)
qed

end
